theory Spec2Isabelle
  imports Complex_Main
begin

section \<open>Data model\<close>

text \<open>
  The dashboard keeps its state in three React components:
  \<^item> \<open>EcommerceMetrics\<close> (location history and cumulative travelled distance),
  \<^item> \<open>GeoFencing\<close> (fence configuration, fence classification of every bike, alert buffer),
  \<^item> \<open>BikeTrackingMap\<close> (bike list and recorded routes).
  Every state setter of a component becomes a field of a record, and every event handler a
  function from the old state to the new one.

  In the handlers JavaScript numbers are real numbers and \<open>calculateDistance\<close> is
  evaluated in exact arithmetic: the theorems about the handlers compare distances and never
  depend on a rounded digit. What double precision adds to \<open>calculateDistance\<close>,
  rounding after every operation and NaN from the square root of a negative number, is the
  subject of a section of its own, with the function \<open>calculateDistance64\<close>. Built-ins
  whose result is only stored (\<open>parseFloat\<close>, \<open>toFixed\<close>) and the wall clock are
  parameters of the handlers.

  An updater passed to a state setter runs once for each event, and the state changes of one
  handler run are applied together before the next event. A request for the bike list is
  given by its outcome, the bikes of the answer or \<open>None\<close> when the request fails or the
  answer has no list, and takes effect together with the state change that triggered it.
\<close>

record Location =
  lat :: real
  lng :: real

text \<open>\<open>LocationHistory\<close> of EcommerceMetrics.tsx: a location with the event's time stamp.\<close>

record LocationHistory = Location +
  timestamp :: string

text \<open>
  \<open>Bike\<close> of Map.tsx, extended by GeoFencing with the two fence fields. The location is
  optional: Map.tsx declares it \<open>Location | null\<close> and both components test it before use.
\<close>

record MapBike =
  bikeId :: string
  currentLocation :: "Location option"
  avgSpeed :: real
  batteryLevel :: real
  lastSeen :: string
  status :: string

record Bike = MapBike +
  isOutsideFence :: bool
  distanceFromBase :: real

text \<open>\<open>BikeUpdateData\<close>, the payload of the \<open>bikeUpdate\<close> socket event (both components).\<close>

record BikeData =
  d_location :: "Location option"
  d_avgSpeed :: string
  d_battery :: string

record BikeUpdateData =
  u_bikeId :: string
  u_data :: BikeData
  u_timestamp :: string

record Alert =
  a_id :: nat
  a_bikeId :: string
  a_message :: string
  a_distance :: string
  a_timestamp :: string

text \<open>The JavaScript built-ins a handler calls only to store their result.\<close>

record JS =
  parseFloat :: "string \<Rightarrow> real"
  toFixed2 :: "real \<Rightarrow> string"

text \<open>The clock readings of one handler run: \<open>Date.now()\<close> and \<open>new Date().toLocaleTimeString()\<close>.\<close>

record Clock =
  dateNow :: nat
  toLocaleTimeString :: string

record GeoFencing =
  baseLocation :: Location
  radius :: real
  bikes :: "Bike list"
  alerts :: "Alert list"
  trackingEnabled :: bool
  lastUpdate :: "string option"

section \<open>Geo math\<close>

text \<open>
  \<open>Math.atan2(y, x)\<close> on finite arguments: the angle of the point \<open>(x, y)\<close> in
  \<open>(-\<pi>, \<pi>]\<close>, with \<open>atan2(0, 0) = 0\<close>.
\<close>

definition atan2 :: "real \<Rightarrow> real \<Rightarrow> real" where
  "atan2 y x =
     (if 0 < x then arctan (y / x)
      else if x < 0 then (if 0 \<le> y then arctan (y / x) + pi else arctan (y / x) - pi)
      else if 0 < y then pi / 2
      else if y < 0 then - (pi / 2)
      else 0)"

text \<open>The intermediate value \<open>a\<close> of \<open>calculateDistance\<close>.\<close>

definition haversine_a :: "real \<Rightarrow> real \<Rightarrow> real \<Rightarrow> real \<Rightarrow> real" where
  "haversine_a lat1 lng1 lat2 lng2 =
     (let dLat = (lat2 - lat1) * pi / 180;
          dLng = (lng2 - lng1) * pi / 180
      in sin (dLat / 2) * sin (dLat / 2) +
         cos (lat1 * pi / 180) * cos (lat2 * pi / 180) *
         sin (dLng / 2) * sin (dLng / 2))"

text \<open>
  \<open>calculateDistance\<close>, the same function in EcommerceMetrics.tsx and in GeoFencing, in exact
  arithmetic. The source does not clamp \<open>a\<close>; in exact arithmetic \<open>a\<close> never leaves
  \<open>[0, 1]\<close>, in double precision it can (see \<open>calculateDistance64\<close>).
\<close>

definition calculateDistance :: "real \<Rightarrow> real \<Rightarrow> real \<Rightarrow> real \<Rightarrow> real" where
  "calculateDistance lat1 lng1 lat2 lng2 =
     (let R = 6371;
          a = haversine_a lat1 lng1 lat2 lng2;
          c = 2 * atan2 (sqrt a) (sqrt (1 - a))
      in R * c)"

section \<open>Geo math in double precision\<close>

text \<open>
  A JavaScript number is an IEEE double. A finite double is the real number it stands for,
  and NaN is \<open>None\<close>. Every arithmetic operation returns the double nearest to the exact
  result, ties to the even mantissa: \<open>fl\<close> rounds a real number to 53 significant bits.
  Overflow and subnormal numbers are left out; no value below comes near them.
\<close>

definition roundEven :: "real \<Rightarrow> int" where
  "roundEven x =
     (let f = \<lfloor>x\<rfloor>; d = x - of_int f
      in if d < 1 / 2 then f else if 1 / 2 < d then f + 1 else if even f then f else f + 1)"

definition fl :: "real \<Rightarrow> real" where
  "fl x =
     (if x = 0 then 0
      else (let e = \<lfloor>log 2 \<bar>x\<bar>\<rfloor> - 52
            in of_int (roundEven (x / 2 powr of_int e)) * 2 powr of_int e))"

text \<open>
  \<open>Math.PI\<close> is the double nearest to \<open>\<pi>\<close>. \<open>Math.sqrt\<close> of a negative number is NaN,
  otherwise the rounded root. \<open>Math.sin\<close>, \<open>Math.cos\<close> and \<open>Math.atan2\<close> are left to the
  implementation by the language standard, so they are parameters.
\<close>

definition Math_PI :: real where
  "Math_PI = 884279719003555 / 2 ^ 48"

definition Math_sqrt :: "real \<Rightarrow> real option" where
  "Math_sqrt x = (if x < 0 then None else Some (fl (sqrt x)))"

record Math =
  Math_sin :: "real \<Rightarrow> real"
  Math_cos :: "real \<Rightarrow> real"
  Math_atan2 :: "real \<Rightarrow> real \<Rightarrow> real"

text \<open>
  The value \<open>a\<close> of \<open>calculateDistance\<close> in double precision, with the source's order of
  evaluation: \<open>x * Math.PI / 180\<close> is \<open>(x * Math.PI) / 180\<close>, and a product of four factors
  is multiplied from the left.
\<close>

definition haversine_a64 :: "Math \<Rightarrow> real \<Rightarrow> real \<Rightarrow> real \<Rightarrow> real \<Rightarrow> real" where
  "haversine_a64 M lat1 lng1 lat2 lng2 =
     (let dLat = fl (fl (fl (lat2 - lat1) * Math_PI) / 180);
          dLng = fl (fl (fl (lng2 - lng1) * Math_PI) / 180)
      in fl (fl (Math_sin M (fl (dLat / 2)) * Math_sin M (fl (dLat / 2))) +
             fl (fl (fl (Math_cos M (fl (fl (lat1 * Math_PI) / 180)) *
                         Math_cos M (fl (fl (lat2 * Math_PI) / 180))) *
                     Math_sin M (fl (dLng / 2))) *
                 Math_sin M (fl (dLng / 2)))))"

text \<open>
  \<open>calculateDistance\<close> in double precision. A NaN square root makes \<open>Math.atan2\<close>, the
  product with 2 and the product with \<open>R\<close> NaN.
\<close>

definition calculateDistance64 :: "Math \<Rightarrow> real \<Rightarrow> real \<Rightarrow> real \<Rightarrow> real \<Rightarrow> real option" where
  "calculateDistance64 M lat1 lng1 lat2 lng2 =
     (let R = 6371;
          a = haversine_a64 M lat1 lng1 lat2 lng2
      in case Math_sqrt a of
           None \<Rightarrow> None
         | Some y \<Rightarrow>
             (case Math_sqrt (fl (1 - a)) of
                None \<Rightarrow> None
              | Some x \<Rightarrow> Some (fl (R * fl (2 * Math_atan2 M y x)))))"

text \<open>
  What the handler stores in \<open>isOutsideFence\<close>: the comparison \<open>distance > radius\<close>, which
  is false when the distance is NaN.
\<close>

definition isOutsideFence64 :: "Math \<Rightarrow> Location \<Rightarrow> real \<Rightarrow> Location \<Rightarrow> bool" where
  "isOutsideFence64 M base r loc =
     (case calculateDistance64 M (lat base) (lng base) (lat loc) (lng loc) of
        None \<Rightarrow> False
      | Some distance \<Rightarrow> distance > r)"

section \<open>GeoFencing: the bikeUpdate handler\<close>

text \<open>\<open>Array.prototype.findIndex\<close>; the result \<open>-1\<close> is \<open>None\<close>.\<close>

fun findIndex :: "('a \<Rightarrow> bool) \<Rightarrow> 'a list \<Rightarrow> nat option" where
  "findIndex P [] = None"
| "findIndex P (x # xs) = (if P x then Some 0 else map_option Suc (findIndex P xs))"

text \<open>The bike built from the event before the fence is looked at.\<close>

definition updatedBike0 :: "JS \<Rightarrow> BikeUpdateData \<Rightarrow> Bike" where
  "updatedBike0 js data =
     \<lparr> bikeId = u_bikeId data,
       currentLocation = d_location (u_data data),
       avgSpeed = parseFloat js (d_avgSpeed (u_data data)),
       batteryLevel = parseFloat js (d_battery (u_data data)),
       lastSeen = u_timestamp data,
       status = ''active'',
       isOutsideFence = False,
       distanceFromBase = 0 \<rparr>"

text \<open>The fence evaluation of the handler: distance from the base, compared with the radius.\<close>

definition updatedBike :: "JS \<Rightarrow> Location \<Rightarrow> real \<Rightarrow> BikeUpdateData \<Rightarrow> Bike" where
  "updatedBike js base r data =
     (case d_location (u_data data) of
        None \<Rightarrow> updatedBike0 js data
      | Some loc \<Rightarrow>
          (let distance = calculateDistance (lat base) (lng base) (lat loc) (lng loc)
           in (updatedBike0 js data)
                \<lparr> isOutsideFence := distance > r, distanceFromBase := distance \<rparr>))"

definition newAlert :: "JS \<Rightarrow> Clock \<Rightarrow> BikeUpdateData \<Rightarrow> real \<Rightarrow> Alert" where
  "newAlert js clk data distance =
     \<lparr> a_id = dateNow clk,
       a_bikeId = u_bikeId data,
       a_message = ''Bike '' @ u_bikeId data @ '' has left the geo-fence area'',
       a_distance = toFixed2 js distance,
       a_timestamp = toLocaleTimeString clk \<rparr>"

text \<open>
  The alert the handler hands to \<open>setAlerts\<close>, if any: the new bike is outside and the bike
  found under the same id in \<open>prevBikes\<close> is missing or not outside.
\<close>

definition breachAlert ::
  "JS \<Rightarrow> Clock \<Rightarrow> Location \<Rightarrow> real \<Rightarrow> Bike list \<Rightarrow> BikeUpdateData \<Rightarrow> Alert option" where
  "breachAlert js clk base r prevBikes data =
     (case d_location (u_data data) of
        None \<Rightarrow> None
      | Some loc \<Rightarrow>
          (let distance = calculateDistance (lat base) (lng base) (lat loc) (lng loc)
           in if distance > r then
                (case find (\<lambda>bike. bikeId bike = u_bikeId data) prevBikes of
                   None \<Rightarrow> Some (newAlert js clk data distance)
                 | Some existingBike \<Rightarrow>
                     if \<not> isOutsideFence existingBike
                     then Some (newAlert js clk data distance) else None)
              else None))"

text \<open>The new bike list: the entry found by \<open>findIndex\<close> is replaced, or the bike is appended.\<close>

definition updateBikes :: "JS \<Rightarrow> Location \<Rightarrow> real \<Rightarrow> Bike list \<Rightarrow> BikeUpdateData \<Rightarrow> Bike list" where
  "updateBikes js base r prevBikes data =
     (case findIndex (\<lambda>bike. bikeId bike = u_bikeId data) prevBikes of
        Some existingBikeIndex \<Rightarrow> prevBikes[existingBikeIndex := updatedBike js base r data]
      | None \<Rightarrow> prevBikes @ [updatedBike js base r data])"

text \<open>\<open>setAlerts(prev => [newAlert, ...prev.slice(0, 4)])\<close>.\<close>

definition pushAlert :: "Alert \<Rightarrow> Alert list \<Rightarrow> Alert list" where
  "pushAlert a prev = a # take 4 prev"

text \<open>The whole handler of the \<open>bikeUpdate\<close> event.\<close>

definition onBikeUpdate :: "JS \<Rightarrow> Clock \<Rightarrow> BikeUpdateData \<Rightarrow> GeoFencing \<Rightarrow> GeoFencing" where
  "onBikeUpdate js clk data s =
     s \<lparr> lastUpdate := Some (toLocaleTimeString clk),
         bikes := updateBikes js (baseLocation s) (radius s) (bikes s) data,
         alerts := (case breachAlert js clk (baseLocation s) (radius s) (bikes s) data of
                      None \<Rightarrow> alerts s
                    | Some a \<Rightarrow> pushAlert a (alerts s)) \<rparr>"

section \<open>GeoFencing: fence configuration and session controls\<close>

text \<open>
  \<open>fetchBikes\<close>: the bikes of the server's answer, each with a location reclassified against
  the current fence. \<open>None\<close> is a failed request or an answer without \<open>bikes\<close>: the handler
  logs the error and sets nothing.
\<close>

definition processBike :: "Location \<Rightarrow> real \<Rightarrow> Bike \<Rightarrow> Bike" where
  "processBike base r bike =
     (case currentLocation bike of
        Some loc \<Rightarrow>
          (let distance = calculateDistance (lat base) (lng base) (lat loc) (lng loc)
           in bike \<lparr> isOutsideFence := distance > r, distanceFromBase := distance \<rparr>)
      | None \<Rightarrow> bike)"

definition fetchBikes :: "Bike list option \<Rightarrow> GeoFencing \<Rightarrow> GeoFencing" where
  "fetchBikes response s =
     (case response of
        None \<Rightarrow> s
      | Some bs \<Rightarrow> s \<lparr> bikes := map (processBike (baseLocation s) (radius s)) bs \<rparr>)"

definition handleMapClick :: "Location \<Rightarrow> GeoFencing \<Rightarrow> GeoFencing" where
  "handleMapClick latlng s = s \<lparr> baseLocation := \<lparr> lat = lat latlng, lng = lng latlng \<rparr> \<rparr>"

text \<open>\<open>value\<close> is the number parsed from the input field.\<close>

definition handleRadiusChange :: "real \<Rightarrow> GeoFencing \<Rightarrow> GeoFencing" where
  "handleRadiusChange value s = (if value > 0 then s \<lparr> radius := value \<rparr> else s)"

definition toggleTracking :: "GeoFencing \<Rightarrow> GeoFencing" where
  "toggleTracking s =
     (let s' = s \<lparr> trackingEnabled := \<not> trackingEnabled s \<rparr>
      in if \<not> trackingEnabled s then s' \<lparr> bikes := [], alerts := [] \<rparr> else s')"

definition clearAlerts :: "GeoFencing \<Rightarrow> GeoFencing" where
  "clearAlerts s = s \<lparr> alerts := [] \<rparr>"

text \<open>
  The effect on \<open>[trackingEnabled, baseLocation, radius]\<close>: without tracking it returns at
  once; with tracking it connects the socket and calls \<open>fetchBikes\<close>.
\<close>

definition socketEffect :: "Bike list option \<Rightarrow> GeoFencing \<Rightarrow> GeoFencing" where
  "socketEffect response s = (if \<not> trackingEnabled s then s else fetchBikes response s)"

text \<open>
  A fence edit followed by the effect it triggers. A map click always stores a new object, so
  the effect runs; a radius input runs it only when the stored radius changed.
\<close>

definition changeCenter :: "Location \<Rightarrow> Bike list option \<Rightarrow> GeoFencing \<Rightarrow> GeoFencing" where
  "changeCenter latlng response s = socketEffect response (handleMapClick latlng s)"

definition changeRadius :: "real \<Rightarrow> Bike list option \<Rightarrow> GeoFencing \<Rightarrow> GeoFencing" where
  "changeRadius value response s =
     (let s' = handleRadiusChange value s
      in if radius s' = radius s then s' else socketEffect response s')"

definition GeoFencing_init :: GeoFencing where
  "GeoFencing_init =
     \<lparr> baseLocation = \<lparr> lat = 19.0760, lng = 72.8777 \<rparr>,
       radius = 1,
       bikes = [],
       alerts = [],
       trackingEnabled = False,
       lastUpdate = None \<rparr>"

text \<open>
  Everything that can happen to the GeoFencing component. The socket exists only while
  tracking is enabled, and so does the Refresh button.
\<close>

datatype GeoEvent =
    BikeUpdate Clock BikeUpdateData
  | MapClick Location "Bike list option"
  | RadiusChange real "Bike list option"
  | ToggleTracking "Bike list option"
  | Refresh "Bike list option"
  | ClearAlerts

fun geoStep :: "JS \<Rightarrow> GeoFencing \<Rightarrow> GeoEvent \<Rightarrow> GeoFencing" where
  "geoStep js s (BikeUpdate clk data) = (if trackingEnabled s then onBikeUpdate js clk data s else s)"
| "geoStep js s (MapClick latlng response) = changeCenter latlng response s"
| "geoStep js s (RadiusChange value response) = changeRadius value response s"
| "geoStep js s (ToggleTracking response) = socketEffect response (toggleTracking s)"
| "geoStep js s (Refresh response) = (if trackingEnabled s then fetchBikes response s else s)"
| "geoStep js s ClearAlerts = clearAlerts s"

definition geoRun :: "JS \<Rightarrow> GeoFencing \<Rightarrow> GeoEvent list \<Rightarrow> GeoFencing" where
  "geoRun js s evs = foldl (geoStep js) s evs"



section \<open>EcommerceMetrics: location history and cumulative distance\<close>

text \<open>
  \<open>BikeData\<close> of EcommerceMetrics.tsx, the payload of the \<open>bikeData\<close> socket event. The handler
  tests \<open>data\<close>, \<open>data.data\<close> and \<open>data.data.location\<close> before it does anything.
\<close>

record MetricsPayload =
  p_avgSpeed :: real
  p_distance :: real
  p_location :: "Location option"
  p_battery :: "real option"

record MetricsBikeData =
  m_bikeId :: string
  m_timestamp :: string
  m_data :: "MetricsPayload option"

record EcommerceMetrics =
  latestData :: "MetricsBikeData option"
  error :: "string option"
  locationHistory :: "LocationHistory list"
  totalCalculatedDistance :: real
  m_baseLocation :: Location
  m_distanceFromBase :: real

text \<open>
  What the updater of \<open>setLocationHistory\<close> adds to the total: the distance from the last
  recorded location when there is one and the distance is above 0.001 km.
\<close>

definition addedDistance :: "LocationHistory list \<Rightarrow> LocationHistory \<Rightarrow> real" where
  "addedDistance prevHistory newLocation =
     (if length prevHistory > 0 then
        (let lastLocation = last prevHistory;
             distanceFromLast = calculateDistance (lat lastLocation) (lng lastLocation)
                                  (lat newLocation) (lng newLocation)
         in if distanceFromLast > 0.001 then distanceFromLast else 0)
      else 0)"

text \<open>The history the updater returns: push, then shift when longer than 100.\<close>

definition nextHistory :: "LocationHistory list \<Rightarrow> LocationHistory \<Rightarrow> LocationHistory list" where
  "nextHistory prevHistory newLocation =
     (let newHistory = prevHistory @ [newLocation]
      in if length newHistory > 100 then tl newHistory else newHistory)"

definition onBikeData :: "MetricsBikeData option \<Rightarrow> EcommerceMetrics \<Rightarrow> EcommerceMetrics" where
  "onBikeData received s =
     (case received of
        None \<Rightarrow> s
      | Some data \<Rightarrow>
          (case m_data data of
             None \<Rightarrow> s
           | Some payload \<Rightarrow>
               (case p_location payload of
                  None \<Rightarrow> s
                | Some loc \<Rightarrow>
                    (let newLocation =
                           \<lparr> lat = lat loc, lng = lng loc, timestamp = m_timestamp data \<rparr>
                     in s \<lparr> m_distanceFromBase :=
                               calculateDistance (lat (m_baseLocation s)) (lng (m_baseLocation s))
                                 (lat loc) (lng loc),
                             locationHistory := nextHistory (locationHistory s) newLocation,
                             totalCalculatedDistance :=
                               totalCalculatedDistance s
                                 + addedDistance (locationHistory s) newLocation,
                             latestData := Some data,
                             error := None \<rparr>))))"

definition resetDistance :: "EcommerceMetrics \<Rightarrow> EcommerceMetrics" where
  "resetDistance s = s \<lparr> totalCalculatedDistance := 0, locationHistory := [] \<rparr>"

definition updateBaseLocation :: "real \<Rightarrow> real \<Rightarrow> EcommerceMetrics \<Rightarrow> EcommerceMetrics" where
  "updateBaseLocation la lo s = s \<lparr> m_baseLocation := \<lparr> lat = la, lng = lo \<rparr> \<rparr>"

definition EcommerceMetrics_init :: EcommerceMetrics where
  "EcommerceMetrics_init =
     \<lparr> latestData = None,
       error = None,
       locationHistory = [],
       totalCalculatedDistance = 0,
       m_baseLocation = \<lparr> lat = 19.0760, lng = 72.8777 \<rparr>,
       m_distanceFromBase = 0 \<rparr>"

datatype MetricsEvent =
    BikeDataReceived "MetricsBikeData option"
  | ResetDistance
  | UpdateBaseLocation real real

fun metricsStep :: "EcommerceMetrics \<Rightarrow> MetricsEvent \<Rightarrow> EcommerceMetrics" where
  "metricsStep s (BikeDataReceived received) = onBikeData received s"
| "metricsStep s ResetDistance = resetDistance s"
| "metricsStep s (UpdateBaseLocation la lo) = updateBaseLocation la lo s"

definition metricsRun :: "EcommerceMetrics \<Rightarrow> MetricsEvent list \<Rightarrow> EcommerceMetrics" where
  "metricsRun s evs = foldl metricsStep s evs"

text \<open>A run of \<open>bikeData\<close> events alone.\<close>

definition telemetryRun :: "EcommerceMetrics \<Rightarrow> MetricsBikeData option list \<Rightarrow> EcommerceMetrics" where
  "telemetryRun s evs = foldl (\<lambda>s received. onBikeData received s) s evs"

text \<open>The location an event carries, if the handler accepts the event.\<close>

definition acceptedLocation :: "MetricsBikeData option \<Rightarrow> Location option" where
  "acceptedLocation received =
     (case received of
        None \<Rightarrow> None
      | Some data \<Rightarrow> (case m_data data of None \<Rightarrow> None | Some payload \<Rightarrow> p_location payload))"

text \<open>
  An event that moves less than one metre (0.001 km) from the last recorded position, and a
  sequence of events each of which does so at the moment it arrives.
\<close>

definition movesLessThan1m :: "EcommerceMetrics \<Rightarrow> MetricsBikeData option \<Rightarrow> bool" where
  "movesLessThan1m s received =
     (case acceptedLocation received of
        None \<Rightarrow> True
      | Some loc \<Rightarrow>
          (case locationHistory s of
             [] \<Rightarrow> True
           | _ # _ \<Rightarrow>
               calculateDistance (lat (last (locationHistory s))) (lng (last (locationHistory s)))
                 (lat loc) (lng loc) < 0.001))"

fun allMoveLessThan1m :: "EcommerceMetrics \<Rightarrow> MetricsBikeData option list \<Rightarrow> bool" where
  "allMoveLessThan1m s [] = True"
| "allMoveLessThan1m s (received # rest) =
     (movesLessThan1m s received \<and> allMoveLessThan1m (onBikeData received s) rest)"

section \<open>BikeTrackingMap: bike list and routes\<close>

record BikeTrackingMap =
  mapBikes :: "MapBike list"
  routes :: "string \<rightharpoonup> (real \<times> real) list"
  isTrackingRoutes :: bool
  followBike :: "string option"

definition BikeTrackingMap_init :: BikeTrackingMap where
  "BikeTrackingMap_init =
     \<lparr> mapBikes = [], routes = Map.empty, isTrackingRoutes = False, followBike = None \<rparr>"

text \<open>The updater of \<open>setBikes\<close>: four fields of the bike found are overwritten, or a bike is added.\<close>

definition mapUpdateBikes :: "JS \<Rightarrow> MapBike list \<Rightarrow> BikeUpdateData \<Rightarrow> MapBike list" where
  "mapUpdateBikes js prevBikes data =
     (case findIndex (\<lambda>bike. bikeId bike = u_bikeId data) prevBikes of
        Some existingBikeIndex \<Rightarrow>
          prevBikes[existingBikeIndex :=
            (prevBikes ! existingBikeIndex)
              \<lparr> currentLocation := d_location (u_data data),
                avgSpeed := parseFloat js (d_avgSpeed (u_data data)),
                batteryLevel := parseFloat js (d_battery (u_data data)),
                lastSeen := u_timestamp data \<rparr>]
      | None \<Rightarrow>
          prevBikes @
            [\<lparr> bikeId = u_bikeId data,
               currentLocation = d_location (u_data data),
               avgSpeed = parseFloat js (d_avgSpeed (u_data data)),
               batteryLevel = parseFloat js (d_battery (u_data data)),
               lastSeen = u_timestamp data,
               status = ''active'' \<rparr>])"

text \<open>
  The updater of \<open>setRoutes\<close>: the new point is appended unless the route's last point has
  the same latitude and the same longitude.
\<close>

definition updateRoutes ::
  "(string \<rightharpoonup> (real \<times> real) list) \<Rightarrow> string \<Rightarrow> Location \<Rightarrow> (string \<rightharpoonup> (real \<times> real) list)" where
  "updateRoutes prevRoutes bid loc =
     (let bikeRoute = (case prevRoutes bid of Some route \<Rightarrow> route | None \<Rightarrow> []);
          newPoint = (lat loc, lng loc)
      in if bikeRoute = [] \<or> fst (last bikeRoute) \<noteq> fst newPoint
              \<or> snd (last bikeRoute) \<noteq> snd newPoint
         then prevRoutes(bid \<mapsto> bikeRoute @ [newPoint])
         else prevRoutes)"

definition onMapBikeUpdate :: "JS \<Rightarrow> BikeUpdateData \<Rightarrow> BikeTrackingMap \<Rightarrow> BikeTrackingMap" where
  "onMapBikeUpdate js data s =
     s \<lparr> mapBikes := mapUpdateBikes js (mapBikes s) data,
         routes := (if isTrackingRoutes s then
                      (case d_location (u_data data) of
                         Some loc \<Rightarrow> updateRoutes (routes s) (u_bikeId data) loc
                       | None \<Rightarrow> routes s)
                    else routes s) \<rparr>"

text \<open>One round of the \<open>forEach\<close> of \<open>startRouteTracking\<close>.\<close>

definition initRoute ::
  "(string \<rightharpoonup> (real \<times> real) list) \<Rightarrow> MapBike \<Rightarrow> (string \<rightharpoonup> (real \<times> real) list)" where
  "initRoute prevRoutes bike =
     (case currentLocation bike of
        Some loc \<Rightarrow> prevRoutes(bikeId bike \<mapsto> [(lat loc, lng loc)])
      | None \<Rightarrow> prevRoutes)"

text \<open>The state setters of the handlers \<open>startRouteTracking\<close> and \<open>stopRouteTracking\<close>.\<close>

definition startRouteTrackingBody :: "BikeTrackingMap \<Rightarrow> BikeTrackingMap" where
  "startRouteTrackingBody s =
     s \<lparr> isTrackingRoutes := True, routes := foldl initRoute Map.empty (mapBikes s) \<rparr>"

definition stopRouteTrackingBody :: "BikeTrackingMap \<Rightarrow> BikeTrackingMap" where
  "stopRouteTrackingBody s = s \<lparr> isTrackingRoutes := False \<rparr>"

definition clearRoutes :: "BikeTrackingMap \<Rightarrow> BikeTrackingMap" where
  "clearRoutes s = s \<lparr> routes := Map.empty \<rparr>"

text \<open>
  \<open>fetchBikes\<close> of Map.tsx: the stored bike list is replaced by the bikes of the server's
  answer. \<open>None\<close> is a failed request or an answer without \<open>bikes\<close>.
\<close>

definition mapFetchBikes :: "MapBike list option \<Rightarrow> BikeTrackingMap \<Rightarrow> BikeTrackingMap" where
  "mapFetchBikes response s =
     (case response of None \<Rightarrow> s | Some bs \<Rightarrow> s \<lparr> mapBikes := bs \<rparr>)"

text \<open>
  The effect on \<open>[isTrackingRoutes]\<close>: it connects the socket and calls \<open>fetchBikes\<close>. It
  runs after a render in which the flag differs from the flag of the render before.
\<close>

definition mapSocketEffect :: "MapBike list option \<Rightarrow> BikeTrackingMap \<Rightarrow> BikeTrackingMap" where
  "mapSocketEffect response s = mapFetchBikes response s"

definition afterFlagChange ::
  "MapBike list option \<Rightarrow> BikeTrackingMap \<Rightarrow> BikeTrackingMap \<Rightarrow> BikeTrackingMap" where
  "afterFlagChange response s s' =
     (if isTrackingRoutes s' = isTrackingRoutes s then s' else mapSocketEffect response s')"

text \<open>
  A click on Start or on Stop: the state setters of the handler, which read the bike list of
  the render the click happened in, followed by the effect that the new flag triggers.
\<close>

definition startRouteTracking :: "MapBike list option \<Rightarrow> BikeTrackingMap \<Rightarrow> BikeTrackingMap" where
  "startRouteTracking response s = afterFlagChange response s (startRouteTrackingBody s)"

definition stopRouteTracking :: "MapBike list option \<Rightarrow> BikeTrackingMap \<Rightarrow> BikeTrackingMap" where
  "stopRouteTracking response s = afterFlagChange response s (stopRouteTrackingBody s)"

text \<open>The button of the control panel: stop when tracking, start otherwise.\<close>

definition toggleRouteTracking :: "MapBike list option \<Rightarrow> BikeTrackingMap \<Rightarrow> BikeTrackingMap" where
  "toggleRouteTracking response s =
     (if isTrackingRoutes s then stopRouteTracking response s else startRouteTracking response s)"

section \<open>The specification's vocabulary\<close>

text \<open>
  The specification's \<open>distanceKm\<close>: the haversine great-circle distance on a sphere of radius
  6371 km, with the haversine of the central angle clamped to \<open>[0, 1]\<close> before the inverse sine.
\<close>

definition distanceKm :: "Location \<Rightarrow> Location \<Rightarrow> real" where
  "distanceKm p q =
     (let phi1 = lat p * pi / 180; phi2 = lat q * pi / 180;
          dphi = (lat q - lat p) * pi / 180; dlam = (lng q - lng p) * pi / 180;
          h = (sin (dphi / 2))\<^sup>2 + cos phi1 * cos phi2 * (sin (dlam / 2))\<^sup>2
      in 2 * 6371 * arcsin (sqrt (min 1 (max 0 h))))"

text \<open>The specification's coordinate ranges.\<close>

definition validCoordinates :: "Location \<Rightarrow> bool" where
  "validCoordinates loc = (- 90 \<le> lat loc \<and> lat loc \<le> 90 \<and> - 180 \<le> lng loc \<and> lng loc \<le> 180)"

section \<open>Example inputs\<close>

text \<open>
  The specification's example: the default fence, centre \<open>(19.0760, 72.8777)\<close> and radius
  1 km, and a bike reported at \<open>(19.0950, 72.8777)\<close>, about 2.1 km north of the centre.
\<close>

definition example_center :: Location where
  "example_center = \<lparr> lat = 19.0760, lng = 72.8777 \<rparr>"

definition example_far :: Location where
  "example_far = \<lparr> lat = 19.0950, lng = 72.8777 \<rparr>"

text \<open>A second position about 0.11 m north of \<open>example_far\<close>.\<close>

definition example_near :: Location where
  "example_near = \<lparr> lat = 19.095001, lng = 72.8777 \<rparr>"

text \<open>A position outside the specification's coordinate ranges.\<close>

definition example_invalid :: Location where
  "example_invalid = \<lparr> lat = 91, lng = 200 \<rparr>"

text \<open>Built-ins, a clock reading, events and bikes to run the handlers on.\<close>

definition example_js :: JS where
  "example_js = \<lparr> parseFloat = (\<lambda>_. 12.5), toFixed2 = (\<lambda>_. ''2.11'') \<rparr>"

definition example_clock :: Clock where
  "example_clock = \<lparr> dateNow = 1700000000000, toLocaleTimeString = ''10:15:00'' \<rparr>"

definition example_update :: "string \<Rightarrow> Location \<Rightarrow> BikeUpdateData" where
  "example_update bid loc =
     \<lparr> u_bikeId = bid,
       u_data = \<lparr> d_location = Some loc, d_avgSpeed = ''12.5'', d_battery = ''80'' \<rparr>,
       u_timestamp = ''2024-01-01T10:15:00Z'' \<rparr>"

definition example_bikeData :: "Location \<Rightarrow> MetricsBikeData option" where
  "example_bikeData loc =
     Some \<lparr> m_bikeId = ''bike-1'',
            m_timestamp = ''2024-01-01T10:15:00Z'',
            m_data = Some \<lparr> p_avgSpeed = 12.5, p_distance = 0,
                             p_location = Some loc, p_battery = Some 80 \<rparr> \<rparr>"

definition example_mapBike :: "string \<Rightarrow> Location \<Rightarrow> MapBike" where
  "example_mapBike bid loc =
     \<lparr> bikeId = bid, currentLocation = Some loc, avgSpeed = 10, batteryLevel = 90,
       lastSeen = ''2024-01-01T10:00:00Z'', status = ''active'' \<rparr>"

definition example_bike :: "string \<Rightarrow> Location \<Rightarrow> bool \<Rightarrow> real \<Rightarrow> Bike" where
  "example_bike bid loc outside km =
     \<lparr> bikeId = bid, currentLocation = Some loc, avgSpeed = 10, batteryLevel = 90,
       lastSeen = ''2024-01-01T10:00:00Z'', status = ''active'',
       isOutsideFence = outside, distanceFromBase = km \<rparr>"


definition example_tracking :: "real \<Rightarrow> Bike list \<Rightarrow> GeoFencing" where
  "example_tracking r bs = GeoFencing_init \<lparr> radius := r, bikes := bs, trackingEnabled := True \<rparr>"

text \<open>
  A fence centre and a bike position, both with valid coordinates and nearly antipodal, and
  built-ins that return the double nearest to the exact sine, cosine and angle.
\<close>

definition example_Math :: Math where
  "example_Math =
     \<lparr> Math_sin = (\<lambda>x. fl (sin x)),
       Math_cos = (\<lambda>x. fl (cos x)),
       Math_atan2 = (\<lambda>y x. fl (atan2 y x)) \<rparr>"

definition example_base64 :: Location where
  "example_base64 = \<lparr> lat = 5 / 2, lng = 0 \<rparr>"

definition example_antipode :: Location where
  "example_antipode = \<lparr> lat = - (5 / 2), lng = 180 \<rparr>"

section \<open>Properties of the geo math\<close>

text \<open>
  The value \<open>a\<close> is a convex combination of two squares, so it lies in \<open>[0, 1]\<close> for all
  arguments: both square roots of \<open>calculateDistance\<close> are taken of non-negative numbers.
\<close>

lemma sin_half_sq: "(sin (t / 2))\<^sup>2 = (1 - cos t) / 2" for t :: real
  using cos_double_sin [of "t / 2"] by simp

lemma cos_half_sq: "(cos (t / 2))\<^sup>2 = (1 + cos t) / 2" for t :: real
  using cos_double_cos [of "t / 2"] by simp

lemma haversine_a_alt:
  "haversine_a lat1 lng1 lat2 lng2 =
     (sin ((lat2 * pi / 180 - lat1 * pi / 180) / 2))\<^sup>2 * (1 - (sin ((lng2 - lng1) * pi / 180 / 2))\<^sup>2)
     + (cos ((lat1 * pi / 180 + lat2 * pi / 180) / 2))\<^sup>2 * (sin ((lng2 - lng1) * pi / 180 / 2))\<^sup>2"
proof -
  define x where "x = lat1 * pi / 180"
  define y where "y = lat2 * pi / 180"
  define T where "T = (sin ((lng2 - lng1) * pi / 180 / 2))\<^sup>2"
  have d: "(lat2 - lat1) * pi / 180 = y - x"
    by (simp add: x_def y_def algebra_simps diff_divide_distrib)
  have cc: "cos x * cos y = (cos (y - x) + cos (x + y)) / 2"
    by (simp add: cos_add cos_diff)
  have "haversine_a lat1 lng1 lat2 lng2 = (sin ((y - x) / 2))\<^sup>2 + cos x * cos y * T"
    unfolding haversine_a_def Let_def d x_def [symmetric] y_def [symmetric] T_def
    by (simp add: power2_eq_square)
  also have "\<dots> = (1 - cos (y - x)) / 2 + (cos (y - x) + cos (x + y)) / 2 * T"
    unfolding sin_half_sq cc ..
  also have "\<dots> = (1 - cos (y - x)) / 2 * (1 - T) + (1 + cos (x + y)) / 2 * T"
    by (simp add: algebra_simps add_divide_distrib diff_divide_distrib)
  also have "\<dots> = (sin ((y - x) / 2))\<^sup>2 * (1 - T) + (cos ((x + y) / 2))\<^sup>2 * T"
    unfolding sin_half_sq cos_half_sq ..
  finally show ?thesis
    unfolding x_def y_def T_def .
qed

lemma sin_sq_le1: "(sin t)\<^sup>2 \<le> 1" for t :: real
  using abs_sin_le_one [of t] abs_square_le_1 by blast

lemma cos_sq_le1: "(cos t)\<^sup>2 \<le> 1" for t :: real
  using abs_cos_le_one [of t] abs_square_le_1 by blast

lemma haversine_a_ge0: "0 \<le> haversine_a lat1 lng1 lat2 lng2"
  unfolding haversine_a_alt
  by (intro add_nonneg_nonneg mult_nonneg_nonneg) (simp_all add: sin_sq_le1)

lemma convex_le1:
  fixes p q t :: real
  assumes "p \<le> 1" "q \<le> 1" "0 \<le> t" "t \<le> 1"
  shows "p * (1 - t) + q * t \<le> 1"
proof -
  have "p * (1 - t) \<le> 1 * (1 - t)" using assms by (intro mult_right_mono) auto
  moreover have "q * t \<le> 1 * t" using assms by (intro mult_right_mono) auto
  ultimately show ?thesis by simp
qed

lemma haversine_a_le1: "haversine_a lat1 lng1 lat2 lng2 \<le> 1"
  unfolding haversine_a_alt
  by (rule convex_le1) (simp_all add: sin_sq_le1 cos_sq_le1)


lemma atan2_sqrt_arcsin:
  assumes "0 \<le> a" "a \<le> 1"
  shows "atan2 (sqrt a) (sqrt (1 - a)) = arcsin (sqrt a)"
proof (cases "a = 1")
  case True
  then show ?thesis by (simp add: atan2_def)
next
  case False
  with assms have lt: "a < 1" by simp
  define t where "t = arcsin (sqrt a)"
  have r: "- 1 < sqrt a" "sqrt a < 1"
    using assms lt by (auto intro: less_le_trans [of _ 0])
  have bounds: "- (pi / 2) < t" "t < pi / 2"
    using arcsin_lt_bounded [OF r] by (simp_all add: t_def)
  have s: "sin t = sqrt a"
    using r by (simp add: t_def)
  have c: "cos t = sqrt (1 - a)"
    using cos_arcsin [of "sqrt a"] r assms by (simp add: t_def)
  have "arctan (sqrt a / sqrt (1 - a)) = arctan (tan t)"
    by (simp add: tan_def s c)
  also have "\<dots> = t"
    using bounds by (rule arctan_tan)
  finally show ?thesis
    using lt by (simp add: atan2_def t_def)
qed

lemma calculateDistance_arcsin:
  "calculateDistance lat1 lng1 lat2 lng2 =
     2 * 6371 * arcsin (sqrt (haversine_a lat1 lng1 lat2 lng2))"
  by (simp add: calculateDistance_def Let_def atan2_sqrt_arcsin haversine_a_ge0 haversine_a_le1)

lemma calculateDistance_eq_distanceKm:
  "calculateDistance (lat p) (lng p) (lat q) (lng q) = distanceKm p q"
proof -
  define h where "h = haversine_a (lat p) (lng p) (lat q) (lng q)"
  have h: "0 \<le> h" "h \<le> 1"
    by (simp_all add: h_def haversine_a_ge0 haversine_a_le1)
  have "distanceKm p q = 2 * 6371 * arcsin (sqrt (min 1 (max 0 h)))"
    by (simp add: distanceKm_def h_def haversine_a_def Let_def power2_eq_square algebra_simps)
  also have "min 1 (max 0 h) = h"
    using h by simp
  finally show ?thesis
    by (simp add: calculateDistance_arcsin h_def)
qed

lemma calculateDistance_nonneg: "0 \<le> calculateDistance lat1 lng1 lat2 lng2"
proof -
  have "0 \<le> sqrt (haversine_a lat1 lng1 lat2 lng2)"
    by (simp add: haversine_a_ge0)
  moreover have "sqrt (haversine_a lat1 lng1 lat2 lng2) \<le> 1"
    using haversine_a_le1 [of lat1 lng1 lat2 lng2] by simp
  ultimately have "0 \<le> arcsin (sqrt (haversine_a lat1 lng1 lat2 lng2))"
    using arcsin_lbound [of "sqrt (haversine_a lat1 lng1 lat2 lng2)"]
      arcsin_le_arcsin [of 0 "sqrt (haversine_a lat1 lng1 lat2 lng2)"] by simp
  then show ?thesis
    by (simp add: calculateDistance_arcsin)
qed

lemma calculateDistance_same: "calculateDistance la lo la lo = 0"
  by (simp add: calculateDistance_def haversine_a_def atan2_def)

lemma calculateDistance_same_lng:
  assumes "\<bar>lat2 - lat1\<bar> \<le> 180"
  shows "calculateDistance lat1 lo lat2 lo = 6371 * (\<bar>lat2 - lat1\<bar> * pi / 180)"
proof -
  define d where "d = (lat2 - lat1) * pi / 180 / 2"
  have dabs: "\<bar>d\<bar> = \<bar>lat2 - lat1\<bar> * pi / 180 / 2"
    by (simp add: d_def abs_mult)
  have "\<bar>lat2 - lat1\<bar> * pi \<le> 180 * pi"
    using assms by (intro mult_right_mono) auto
  then have le: "\<bar>d\<bar> \<le> pi / 2"
    by (simp add: dabs)
  have "haversine_a lat1 lo lat2 lo = (sin d)\<^sup>2"
    by (simp add: haversine_a_def d_def power2_eq_square)
  then have "sqrt (haversine_a lat1 lo lat2 lo) = \<bar>sin d\<bar>"
    by simp
  also have "\<dots> = sin \<bar>d\<bar>"
  proof -
    have "0 \<le> \<bar>d\<bar>" "\<bar>d\<bar> \<le> pi"
      using le pi_ge_two by simp_all
    then have "0 \<le> sin \<bar>d\<bar>"
      by (rule sin_ge_zero)
    moreover have "\<bar>sin d\<bar> = \<bar>sin \<bar>d\<bar>\<bar>"
      by (cases "0 \<le> d") simp_all
    ultimately show ?thesis by simp
  qed
  finally have "arcsin (sqrt (haversine_a lat1 lo lat2 lo)) = \<bar>d\<bar>"
    using le by (simp add: arcsin_sin)
  then show ?thesis
    by (simp add: calculateDistance_arcsin dabs mult.commute)
qed

text \<open>The specification's example distance, about 2.1 km, lies between the radii 1 km and 5 km.\<close>

lemma example_distance:
  "1 < calculateDistance 19.0760 72.8777 19.0950 72.8777 \<and>
   calculateDistance 19.0760 72.8777 19.0950 72.8777 < 5"
proof -
  have "calculateDistance 19.0760 72.8777 19.0950 72.8777 = 6371 * (\<bar>19.0950 - 19.0760\<bar> * pi / 180)"
    by (rule calculateDistance_same_lng) simp
  also have "\<dots> = 6371 * 19 / 180000 * pi"
    by simp
  finally have eq: "calculateDistance 19.0760 72.8777 19.0950 72.8777 = 6371 * 19 / 180000 * pi" .
  show ?thesis
    unfolding eq using pi_ge_two pi_less_4 by simp
qed

lemma example_tracking_fields [simp]:
  "trackingEnabled (example_tracking r bs)"
  "radius (example_tracking r bs) = r"
  "bikes (example_tracking r bs) = bs"
  "alerts (example_tracking r bs) = []"
  "baseLocation (example_tracking r bs) = example_center"
  by (simp_all add: example_tracking_def GeoFencing_init_def example_center_def)

section \<open>Properties of the list searches\<close>

lemma findIndex_None_iff: "findIndex P xs = None \<longleftrightarrow> find P xs = None"
  by (induction xs) auto

lemma findIndex_Some:
  "findIndex P xs = Some i \<Longrightarrow> i < length xs \<and> P (xs ! i) \<and> (\<forall>j<i. \<not> P (xs ! j)) \<and> find P xs = Some (xs ! i)"
proof (induction xs arbitrary: i)
  case Nil
  then show ?case by simp
next
  case (Cons x xs)
  show ?case
  proof (cases "P x")
    case True
    with Cons.prems show ?thesis by simp
  next
    case False
    with Cons.prems obtain k where k: "findIndex P xs = Some k" "i = Suc k"
      by auto
    from Cons.IH [OF k(1)] False k(2) show ?thesis
      by (auto simp: nth_Cons split: nat.splits)
  qed
qed

lemma find_update_at_index:
  "findIndex P xs = Some i \<Longrightarrow> P v \<Longrightarrow> find P (xs[i := v]) = Some v"
proof (induction xs arbitrary: i)
  case Nil
  then show ?case by simp
next
  case (Cons x xs)
  then show ?case
    by (cases "P x") (auto split: nat.splits)
qed

lemma find_append_new:
  "find P xs = None \<Longrightarrow> P v \<Longrightarrow> find P (xs @ [v]) = Some v"
  by (induction xs) (auto split: if_splits)



section \<open>GeoFencing: alerts on telemetry\<close>

lemma bikeId_updatedBike [simp]: "bikeId (updatedBike js base r data) = u_bikeId data"
  by (simp add: updatedBike_def updatedBike0_def Let_def split: option.splits)


lemma find_updateBikes_same:
  "find (\<lambda>bike. bikeId bike = u_bikeId data) (updateBikes js base r prevBikes data)
     = Some (updatedBike js base r data)"
proof (cases "findIndex (\<lambda>bike. bikeId bike = u_bikeId data) prevBikes")
  case None
  then have "find (\<lambda>bike. bikeId bike = u_bikeId data) prevBikes = None"
    by (simp add: findIndex_None_iff)
  with None show ?thesis
    by (simp add: updateBikes_def find_append_new)
next
  case (Some i)
  then show ?thesis
    by (simp add: updateBikes_def find_update_at_index)
qed



lemma onBikeUpdate_fields [simp]:
  "baseLocation (onBikeUpdate js clk data s) = baseLocation s"
  "radius (onBikeUpdate js clk data s) = radius s"
  "bikes (onBikeUpdate js clk data s) = updateBikes js (baseLocation s) (radius s) (bikes s) data"
  "trackingEnabled (onBikeUpdate js clk data s) = trackingEnabled s"
  by (simp_all add: onBikeUpdate_def)





section \<open>EcommerceMetrics: cumulative distance\<close>

lemma addedDistance_cases:
  "addedDistance h x =
     (if h \<noteq> [] \<and> calculateDistance (lat (last h)) (lng (last h)) (lat x) (lng x) > 0.001
      then calculateDistance (lat (last h)) (lng (last h)) (lat x) (lng x) else 0)"
  by (simp add: addedDistance_def Let_def)

lemma addedDistance_nonneg: "0 \<le> addedDistance h x"
  by (simp add: addedDistance_cases)

lemma onBikeData_ignored:
  "acceptedLocation received = None \<Longrightarrow> onBikeData received s = s"
  by (simp add: acceptedLocation_def onBikeData_def split: option.splits)

lemma onBikeData_accepted:
  assumes "acceptedLocation received = Some loc"
  shows "\<exists>data. received = Some data \<and>
     totalCalculatedDistance (onBikeData received s) =
       totalCalculatedDistance s
         + addedDistance (locationHistory s) \<lparr> lat = lat loc, lng = lng loc, timestamp = m_timestamp data \<rparr> \<and>
     locationHistory (onBikeData received s) =
       nextHistory (locationHistory s) \<lparr> lat = lat loc, lng = lng loc, timestamp = m_timestamp data \<rparr>"
  using assms
  by (auto simp: acceptedLocation_def onBikeData_def Let_def split: option.splits)

lemma total_onBikeData_mono:
  "totalCalculatedDistance s \<le> totalCalculatedDistance (onBikeData received s)"
proof (cases "acceptedLocation received")
  case None
  then show ?thesis by (simp add: onBikeData_ignored)
next
  case (Some loc)
  from onBikeData_accepted [OF Some, of s] show ?thesis
    by (auto simp: addedDistance_nonneg)
qed

lemma telemetryRun_Cons:
  "telemetryRun s (received # rest) = telemetryRun (onBikeData received s) rest"
  by (simp add: telemetryRun_def)

lemma telemetryRun_snoc:
  "telemetryRun s (evs @ [received]) = onBikeData received (telemetryRun s evs)"
  by (simp add: telemetryRun_def)

lemma total_telemetryRun_mono:
  "totalCalculatedDistance s \<le> totalCalculatedDistance (telemetryRun s evs)"
proof (induction evs arbitrary: s)
  case Nil
  then show ?case by (simp add: telemetryRun_def)
next
  case (Cons received rest)
  have "totalCalculatedDistance s \<le> totalCalculatedDistance (onBikeData received s)"
    by (rule total_onBikeData_mono)
  also have "\<dots> \<le> totalCalculatedDistance (telemetryRun (onBikeData received s) rest)"
    by (rule Cons.IH)
  finally show ?case by (simp add: telemetryRun_Cons)
qed

text \<open>
Claim C3. The cumulative travelled distance never decreases from one telemetry event to
  the next, nor over any sequence of telemetry events. An accepted event adds to it exactly
  the distance from the last recorded position when that distance is above 0.001 km, and
  exactly zero otherwise: the total is incremented, never recomputed. In particular a
  position delta of at most one metre contributes zero.
\<close>

theorem cumulative_distance_monotone:
  "totalCalculatedDistance s \<le> totalCalculatedDistance (onBikeData received s) \<and>
   totalCalculatedDistance (telemetryRun s evs)
     \<le> totalCalculatedDistance (telemetryRun s (evs @ [received])) \<and>
   totalCalculatedDistance s \<le> totalCalculatedDistance (telemetryRun s evs) \<and>
   (\<forall>loc. acceptedLocation received = Some loc \<longrightarrow>
      totalCalculatedDistance (onBikeData received s) =
        totalCalculatedDistance s +
          (if locationHistory s \<noteq> [] \<and>
              calculateDistance (lat (last (locationHistory s))) (lng (last (locationHistory s)))
                (lat loc) (lng loc) > 0.001
           then calculateDistance (lat (last (locationHistory s))) (lng (last (locationHistory s)))
                  (lat loc) (lng loc)
           else 0)) \<and>
   (\<forall>loc. acceptedLocation received = Some loc \<and> locationHistory s \<noteq> [] \<and>
      calculateDistance (lat (last (locationHistory s))) (lng (last (locationHistory s)))
        (lat loc) (lng loc) \<le> 0.001 \<longrightarrow>
      totalCalculatedDistance (onBikeData received s) = totalCalculatedDistance s)"
proof (intro conjI allI impI)
  show "totalCalculatedDistance s \<le> totalCalculatedDistance (onBikeData received s)"
    by (rule total_onBikeData_mono)
  show "totalCalculatedDistance (telemetryRun s evs)
     \<le> totalCalculatedDistance (telemetryRun s (evs @ [received]))"
    unfolding telemetryRun_snoc by (rule total_onBikeData_mono)
  show "totalCalculatedDistance s \<le> totalCalculatedDistance (telemetryRun s evs)"
    by (rule total_telemetryRun_mono)
next
  fix loc
  assume "acceptedLocation received = Some loc"
  from onBikeData_accepted [OF this, of s]
  show "totalCalculatedDistance (onBikeData received s) =
        totalCalculatedDistance s +
          (if locationHistory s \<noteq> [] \<and>
              calculateDistance (lat (last (locationHistory s))) (lng (last (locationHistory s)))
                (lat loc) (lng loc) > 0.001
           then calculateDistance (lat (last (locationHistory s))) (lng (last (locationHistory s)))
                  (lat loc) (lng loc)
           else 0)"
    by (auto simp: addedDistance_cases)
next
  fix loc
  assume a: "acceptedLocation received = Some loc \<and> locationHistory s \<noteq> [] \<and>
      calculateDistance (lat (last (locationHistory s))) (lng (last (locationHistory s)))
        (lat loc) (lng loc) \<le> 0.001"
  then have "acceptedLocation received = Some loc" by simp
  from onBikeData_accepted [OF this, of s] a
  show "totalCalculatedDistance (onBikeData received s) = totalCalculatedDistance s"
    by (auto simp: addedDistance_cases)
qed


lemma acceptedLocation_example [simp]: "acceptedLocation (example_bikeData loc) = Some loc"
  by (simp add: acceptedLocation_def example_bikeData_def)

lemma example_first_report:
  "locationHistory (onBikeData (example_bikeData loc) EcommerceMetrics_init) =
     [\<lparr> lat = lat loc, lng = lng loc, timestamp = ''2024-01-01T10:15:00Z'' \<rparr>]"
  "totalCalculatedDistance (onBikeData (example_bikeData loc) EcommerceMetrics_init) = 0"
  by (simp_all add: onBikeData_def example_bikeData_def EcommerceMetrics_init_def Let_def
      nextHistory_def addedDistance_def)

lemma example_distance_loc:
  "1 < calculateDistance (lat example_center) (lng example_center) (lat example_far) (lng example_far)"
  "calculateDistance (lat example_center) (lng example_center) (lat example_far) (lng example_far) < 5"
  using example_distance by (simp_all add: example_center_def example_far_def)

theorem cumulative_distance_monotone_witness:
  "totalCalculatedDistance
     (telemetryRun EcommerceMetrics_init [example_bikeData example_center, example_bikeData example_far])
     = calculateDistance (lat example_center) (lng example_center) (lat example_far) (lng example_far) \<and>
   totalCalculatedDistance
     (telemetryRun EcommerceMetrics_init [example_bikeData example_center, example_bikeData example_center])
     = 0"
proof -
  let ?s1 = "onBikeData (example_bikeData example_center) EcommerceMetrics_init"
  let ?D = "calculateDistance (lat example_center) (lng example_center) (lat example_far) (lng example_far)"
  have "(0.001::real) < 1"
    by simp
  then have big: "?D > 0.001"
    using example_distance_loc(1) by (rule less_trans)
  have "totalCalculatedDistance (onBikeData (example_bikeData example_far) ?s1) = ?D"
    using cumulative_distance_monotone [where s = ?s1 and received = "example_bikeData example_far"]
      big
    by (simp add: example_first_report)
  moreover have "totalCalculatedDistance (onBikeData (example_bikeData example_center) ?s1) = 0"
    using cumulative_distance_monotone [where s = ?s1 and received = "example_bikeData example_center"]
    by (simp add: example_first_report calculateDistance_same)
  ultimately show ?thesis
    by (simp add: telemetryRun_def)
qed

section \<open>EcommerceMetrics: duplicates and small movements\<close>

lemma nextHistory_last: "nextHistory h x \<noteq> [] \<and> last (nextHistory h x) = x"
proof (cases h)
  case Nil
  then show ?thesis by (simp add: nextHistory_def)
next
  case (Cons y ys)
  then show ?thesis by (simp add: nextHistory_def Let_def)
qed

lemma onBikeData_accepted_last:
  assumes "acceptedLocation received = Some loc"
  shows "locationHistory (onBikeData received s) \<noteq> [] \<and>
         lat (last (locationHistory (onBikeData received s))) = lat loc \<and>
         lng (last (locationHistory (onBikeData received s))) = lng loc"
proof -
  from onBikeData_accepted [OF assms, of s] obtain data :: MetricsBikeData where
    h1: "locationHistory (onBikeData received s) =
           nextHistory (locationHistory s) \<lparr> lat = lat loc, lng = lng loc, timestamp = m_timestamp data \<rparr>"
    by blast
  show ?thesis
    unfolding h1 using nextHistory_last by simp
qed

lemma duplicate_adds_nothing:
  "totalCalculatedDistance (onBikeData received (onBikeData received s))
     = totalCalculatedDistance (onBikeData received s)"
proof (cases "acceptedLocation received")
  case None
  then show ?thesis by (simp add: onBikeData_ignored)
next
  case (Some loc)
  from onBikeData_accepted_last [OF Some, of s] onBikeData_accepted [OF Some, of "onBikeData received s"]
  show ?thesis
    by (auto simp: addedDistance_cases calculateDistance_same)
qed

lemma small_move_adds_nothing:
  "movesLessThan1m s received \<Longrightarrow>
     totalCalculatedDistance (onBikeData received s) = totalCalculatedDistance s"
proof (cases "acceptedLocation received")
  case None
  then show ?thesis by (simp add: onBikeData_ignored)
next
  case (Some loc)
  assume "movesLessThan1m s received"
  with Some have "locationHistory s = [] \<or>
      calculateDistance (lat (last (locationHistory s))) (lng (last (locationHistory s)))
        (lat loc) (lng loc) < 0.001"
    by (auto simp: movesLessThan1m_def split: list.splits)
  with onBikeData_accepted [OF Some, of s] show ?thesis
    by (auto simp: addedDistance_cases)
qed

lemma small_moves_add_nothing:
  "allMoveLessThan1m s evs \<Longrightarrow>
     totalCalculatedDistance (telemetryRun s evs) = totalCalculatedDistance s"
proof (induction evs arbitrary: s)
  case Nil
  then show ?case by (simp add: telemetryRun_def)
next
  case (Cons received rest)
  then have "totalCalculatedDistance (telemetryRun (onBikeData received s) rest)
      = totalCalculatedDistance (onBikeData received s)"
    by simp
  also have "\<dots> = totalCalculatedDistance s"
    using Cons.prems by (simp add: small_move_adds_nothing)
  finally show ?case by (simp add: telemetryRun_Cons)
qed

text \<open>
Claim C4. Applying the same telemetry event twice in a row leaves the cumulative distance
  unchanged the second time, and a sequence of telemetry events each of which moves less
  than one metre from the position recorded last never increases the cumulative distance.
\<close>

theorem duplicate_and_small_moves_add_nothing:
  "totalCalculatedDistance (onBikeData received (onBikeData received s))
     = totalCalculatedDistance (onBikeData received s) \<and>
   (allMoveLessThan1m s evs \<longrightarrow>
      totalCalculatedDistance (telemetryRun s evs) = totalCalculatedDistance s)"
  using duplicate_adds_nothing small_moves_add_nothing by blast

lemma example_near_distance:
  "calculateDistance (lat example_far) (lng example_far) (lat example_near) (lng example_near) < 0.001"
  "calculateDistance (lat example_near) (lng example_near) (lat example_far) (lng example_far) < 0.001"
  "0 < calculateDistance (lat example_far) (lng example_far) (lat example_near) (lng example_near)"
proof -
  let ?D = "6371 * (1 / 1000000 * pi / 180) :: real"
  have lng: "lng example_near = lng example_far"
    by (simp add: example_far_def example_near_def)
  have gap: "\<bar>lat example_near - lat example_far\<bar> = 1 / 1000000"
    "\<bar>lat example_far - lat example_near\<bar> = 1 / 1000000"
    by (simp_all add: example_far_def example_near_def)
  have fwd: "calculateDistance (lat example_far) (lng example_far) (lat example_near) (lng example_near) = ?D"
    unfolding lng gap(1) [symmetric]
    by (rule calculateDistance_same_lng) (simp add: gap)
  have bwd: "calculateDistance (lat example_near) (lng example_near) (lat example_far) (lng example_far) = ?D"
    unfolding lng gap(2) [symmetric]
    by (rule calculateDistance_same_lng) (simp add: gap)
  have small: "?D < 0.001"
    using pi_less_4 by simp
  have pos: "0 < ?D"
    by simp
  show "calculateDistance (lat example_far) (lng example_far) (lat example_near) (lng example_near) < 0.001"
    unfolding fwd by (rule small)
  show "calculateDistance (lat example_near) (lng example_near) (lat example_far) (lng example_far) < 0.001"
    unfolding bwd by (rule small)
  show "0 < calculateDistance (lat example_far) (lng example_far) (lat example_near) (lng example_near)"
    unfolding fwd by (rule pos)
qed

theorem duplicate_and_small_moves_add_nothing_witness:
  "allMoveLessThan1m (onBikeData (example_bikeData example_far) EcommerceMetrics_init)
     [example_bikeData example_near, example_bikeData example_far, example_bikeData example_far] \<and>
   totalCalculatedDistance
     (telemetryRun (onBikeData (example_bikeData example_far) EcommerceMetrics_init)
        [example_bikeData example_near, example_bikeData example_far, example_bikeData example_far])
     = 0"
proof -
  let ?f = "example_bikeData example_far"
  let ?n = "example_bikeData example_near"
  let ?s1 = "onBikeData ?f EcommerceMetrics_init"
  have step: "movesLessThan1m (onBikeData (example_bikeData p) s) (example_bikeData q)"
    if "calculateDistance (lat p) (lng p) (lat q) (lng q) < 0.001" for p q s
    using onBikeData_accepted_last [OF acceptedLocation_example, of p s] that
    by (auto simp: movesLessThan1m_def split: list.splits)
  have same: "calculateDistance (lat example_far) (lng example_far) (lat example_far) (lng example_far) < 0.001"
    by (simp add: calculateDistance_same)
  have hyp: "allMoveLessThan1m ?s1 [?n, ?f, ?f]"
    using step [OF example_near_distance(1)] step [OF example_near_distance(2)] step [OF same]
    by simp
  have "totalCalculatedDistance (telemetryRun ?s1 [?n, ?f, ?f]) = totalCalculatedDistance ?s1"
    using duplicate_and_small_moves_add_nothing [where s = ?s1 and evs = "[?n, ?f, ?f]"] hyp
    by blast
  with hyp show ?thesis
    by (simp add: example_first_report)
qed

section \<open>Bounded buffers\<close>

lemma length_nextHistory: "length h \<le> 100 \<Longrightarrow> length (nextHistory h x) \<le> 100"
  by (simp add: nextHistory_def Let_def)

lemma nextHistory_below_cap: "length h < 100 \<Longrightarrow> nextHistory h x = h @ [x]"
  by (simp add: nextHistory_def Let_def)

lemma nextHistory_at_cap: "length h = 100 \<Longrightarrow> nextHistory h x = tl h @ [x]"
  by (cases h) (simp_all add: nextHistory_def Let_def)

lemma length_history_onBikeData:
  "length (locationHistory s) \<le> 100 \<Longrightarrow> length (locationHistory (onBikeData received s)) \<le> 100"
  by (simp add: onBikeData_def Let_def length_nextHistory split: option.splits)

lemma length_history_metricsStep:
  "length (locationHistory s) \<le> 100 \<Longrightarrow> length (locationHistory (metricsStep s ev)) \<le> 100"
  by (cases ev) (simp_all add: length_history_onBikeData resetDistance_def updateBaseLocation_def)

lemma length_history_metricsRun:
  "length (locationHistory s) \<le> 100 \<Longrightarrow> length (locationHistory (metricsRun s evs)) \<le> 100"
  unfolding metricsRun_def
  by (induction evs arbitrary: s) (simp_all add: length_history_metricsStep)

lemma length_pushAlert: "length (pushAlert a prev) \<le> 5"
  by (simp add: pushAlert_def)

lemma pushAlert_at_cap: "length prev = 5 \<Longrightarrow> pushAlert a prev = a # butlast prev"
  by (simp add: pushAlert_def butlast_conv_take)

lemma pushAlert_below_cap: "length prev < 5 \<Longrightarrow> pushAlert a prev = a # prev"
  by (simp add: pushAlert_def)

lemma alerts_fetchBikes [simp]: "alerts (fetchBikes response s) = alerts s"
  by (simp add: fetchBikes_def split: option.splits)

lemma alerts_socketEffect [simp]: "alerts (socketEffect response s) = alerts s"
  by (simp add: socketEffect_def)

lemma alerts_changeCenter [simp]: "alerts (changeCenter latlng response s) = alerts s"
  by (simp add: changeCenter_def handleMapClick_def)

lemma alerts_changeRadius [simp]: "alerts (changeRadius v response s) = alerts s"
  by (simp add: changeRadius_def handleRadiusChange_def Let_def)

lemma length_alerts_onBikeUpdate:
  "length (alerts s) \<le> 5 \<Longrightarrow> length (alerts (onBikeUpdate js clk data s)) \<le> 5"
  by (simp add: onBikeUpdate_def length_pushAlert split: option.splits)

lemma length_alerts_geoStep:
  "length (alerts s) \<le> 5 \<Longrightarrow> length (alerts (geoStep js s ev)) \<le> 5"
  by (cases ev) (simp_all add: length_alerts_onBikeUpdate toggleTracking_def clearAlerts_def Let_def)

lemma length_alerts_geoRun:
  "length (alerts s) \<le> 5 \<Longrightarrow> length (alerts (geoRun js s evs)) \<le> 5"
  unfolding geoRun_def
  by (induction evs arbitrary: s) (simp_all add: length_alerts_geoStep)


lemma nextHistory_cases:
  "nextHistory h x = (if length h < 100 then h @ [x] else tl h @ [x])"
  by (cases h) (simp_all add: nextHistory_def Let_def)

text \<open>
Claim C7. After every sequence of operations of the metrics component the location history
  has at most 100 entries, and after every sequence of operations of the geo-fencing
  component the alert buffer has at most 5 entries. A new location is appended at the end and,
  when the history is full, the oldest entry (the head) is dropped; a new alert is put at the
  head of the buffer, which is therefore ordered most recent first, and, when the buffer is
  full, the oldest alert (the last) is dropped.
\<close>

theorem history_and_alerts_bounded:
  "length (locationHistory (metricsRun EcommerceMetrics_init mevs)) \<le> 100 \<and>
   length (alerts (geoRun js GeoFencing_init gevs)) \<le> 5 \<and>
   (\<forall>data payload loc.
      received = Some data \<and> m_data data = Some payload \<and> p_location payload = Some loc \<longrightarrow>
      locationHistory (onBikeData received ms) =
        (if length (locationHistory ms) < 100
         then locationHistory ms @ [\<lparr> lat = lat loc, lng = lng loc, timestamp = m_timestamp data \<rparr>]
         else tl (locationHistory ms) @ [\<lparr> lat = lat loc, lng = lng loc, timestamp = m_timestamp data \<rparr>])) \<and>
   (\<forall>a. breachAlert js clk (baseLocation gs) (radius gs) (bikes gs) upd = Some a \<longrightarrow>
      alerts (onBikeUpdate js clk upd gs) = a # take 4 (alerts gs) \<and>
      (length (alerts gs) < 5 \<longrightarrow> alerts (onBikeUpdate js clk upd gs) = a # alerts gs) \<and>
      (length (alerts gs) = 5 \<longrightarrow> alerts (onBikeUpdate js clk upd gs) = a # butlast (alerts gs)))"
proof (intro conjI allI impI)
  show "length (locationHistory (metricsRun EcommerceMetrics_init mevs)) \<le> 100"
    by (rule length_history_metricsRun) (simp add: EcommerceMetrics_init_def)
  show "length (alerts (geoRun js GeoFencing_init gevs)) \<le> 5"
    by (rule length_alerts_geoRun) (simp add: GeoFencing_init_def)
next
  fix data :: MetricsBikeData and payload :: MetricsPayload and loc :: Location
  assume "received = Some data \<and> m_data data = Some payload \<and> p_location payload = Some loc"
  then show "locationHistory (onBikeData received ms) =
        (if length (locationHistory ms) < 100
         then locationHistory ms @ [\<lparr> lat = lat loc, lng = lng loc, timestamp = m_timestamp data \<rparr>]
         else tl (locationHistory ms) @ [\<lparr> lat = lat loc, lng = lng loc, timestamp = m_timestamp data \<rparr>])"
    by (simp add: onBikeData_def Let_def nextHistory_cases)
next
  fix a
  assume a: "breachAlert js clk (baseLocation gs) (radius gs) (bikes gs) upd = Some a"
  then have eq: "alerts (onBikeUpdate js clk upd gs) = pushAlert a (alerts gs)"
    by (simp add: onBikeUpdate_def)
  show "alerts (onBikeUpdate js clk upd gs) = a # take 4 (alerts gs)"
    unfolding eq by (simp add: pushAlert_def)
  show "alerts (onBikeUpdate js clk upd gs) = a # alerts gs" if "length (alerts gs) < 5"
    unfolding eq using that by (rule pushAlert_below_cap)
  show "alerts (onBikeUpdate js clk upd gs) = a # butlast (alerts gs)" if "length (alerts gs) = 5"
    unfolding eq using that by (rule pushAlert_at_cap)
qed

theorem history_and_alerts_bounded_witness:
  "locationHistory
     (onBikeData (example_bikeData example_far)
        (EcommerceMetrics_init
           \<lparr> locationHistory :=
               replicate 100 \<lparr> lat = 19.0760, lng = 72.8777, timestamp = ''2024-01-01T10:00:00Z'' \<rparr> \<rparr>))
     = tl (replicate 100 \<lparr> lat = 19.0760, lng = 72.8777, timestamp = ''2024-01-01T10:00:00Z'' \<rparr>)
         @ [\<lparr> lat = lat example_far, lng = lng example_far, timestamp = ''2024-01-01T10:15:00Z'' \<rparr>] \<and>
   alerts
     (onBikeUpdate example_js example_clock (example_update ''bike-1'' example_far)
        (GeoFencing_init
           \<lparr> alerts := replicate 5 (newAlert example_js example_clock
                                      (example_update ''bike-0'' example_far) 3) \<rparr>))
     = newAlert example_js example_clock (example_update ''bike-1'' example_far)
         (calculateDistance (lat example_center) (lng example_center) (lat example_far) (lng example_far))
       # butlast (replicate 5 (newAlert example_js example_clock
                                 (example_update ''bike-0'' example_far) 3))"
proof -
  let ?h = "replicate 100 \<lparr> lat = 19.0760, lng = 72.8777, timestamp = ''2024-01-01T10:00:00Z'' \<rparr>"
  let ?ms = "EcommerceMetrics_init \<lparr> locationHistory := ?h \<rparr>"
  let ?as = "replicate 5 (newAlert example_js example_clock (example_update ''bike-0'' example_far) 3)"
  let ?gs = "GeoFencing_init \<lparr> alerts := ?as \<rparr>"
  let ?upd = "example_update ''bike-1'' example_far"
  let ?a = "newAlert example_js example_clock ?upd
              (calculateDistance (lat example_center) (lng example_center) (lat example_far) (lng example_far))"
  note inst = history_and_alerts_bounded [where received = "example_bikeData example_far"
      and ms = ?ms and gs = ?gs and upd = ?upd and js = example_js and clk = example_clock
      and mevs = "[]" and gevs = "[]"]
  have breach: "breachAlert example_js example_clock (baseLocation ?gs) (radius ?gs) (bikes ?gs) ?upd
                  = Some ?a"
    using example_distance_loc(1)
    by (simp add: breachAlert_def GeoFencing_init_def example_update_def example_center_def Let_def)
  let ?p = "\<lparr> p_avgSpeed = 12.5, p_distance = 0, p_location = Some example_far, p_battery = Some 80 \<rparr>"
  let ?d = "\<lparr> m_bikeId = ''bike-1'', m_timestamp = ''2024-01-01T10:15:00Z'', m_data = Some ?p \<rparr>"
  have "example_bikeData example_far = Some ?d \<and> m_data ?d = Some ?p \<and> p_location ?p = Some example_far"
    by (simp add: example_bikeData_def)
  with inst have "locationHistory (onBikeData (example_bikeData example_far) ?ms) =
        (if length (locationHistory ?ms) < 100
         then locationHistory ?ms @ [\<lparr> lat = lat example_far, lng = lng example_far, timestamp = m_timestamp ?d \<rparr>]
         else tl (locationHistory ?ms) @ [\<lparr> lat = lat example_far, lng = lng example_far, timestamp = m_timestamp ?d \<rparr>])"
    by blast
  then have H: "locationHistory (onBikeData (example_bikeData example_far) ?ms)
          = tl ?h @ [\<lparr> lat = lat example_far, lng = lng example_far, timestamp = ''2024-01-01T10:15:00Z'' \<rparr>]"
    by simp
  have len: "length (alerts ?gs) = 5" and al: "alerts ?gs = ?as"
    by simp_all
  from inst breach have "length (alerts ?gs) = 5 \<longrightarrow>
      alerts (onBikeUpdate example_js example_clock ?upd ?gs) = ?a # butlast (alerts ?gs)"
    by blast
  from this [THEN mp, OF len]
  have A: "alerts (onBikeUpdate example_js example_clock ?upd ?gs) = ?a # butlast ?as"
    unfolding al .
  from H A show ?thesis
    by (rule conjI)
qed

section \<open>Frame of a telemetry event\<close>

lemma frame_update_or_append:
  assumes new: "new = (case findIndex P prev of Some i \<Rightarrow> prev[i := v] | None \<Rightarrow> prev @ [v])"
    and v: "P v"
  shows "length prev \<le> length new"
    and "\<forall>i<length prev. \<not> P (prev ! i) \<longrightarrow> new ! i = prev ! i"
    and "\<forall>i<length new. \<not> P (new ! i) \<longrightarrow> i < length prev \<and> new ! i = prev ! i"
proof -
  show "length prev \<le> length new"
    by (simp add: new split: option.splits)
  show "\<forall>i<length prev. \<not> P (prev ! i) \<longrightarrow> new ! i = prev ! i"
  proof (cases "findIndex P prev")
    case None
    then show ?thesis by (simp add: new nth_append)
  next
    case (Some k)
    from findIndex_Some [OF Some] have k: "P (prev ! k)" by simp
    have "prev[k := v] ! i = prev ! i" if "\<not> P (prev ! i)" for i
    proof -
      from k that have "k \<noteq> i" by auto
      then show ?thesis by (rule nth_list_update_neq)
    qed
    with Some show ?thesis
      by (simp add: new)
  qed
  show "\<forall>i<length new. \<not> P (new ! i) \<longrightarrow> i < length prev \<and> new ! i = prev ! i"
  proof (cases "findIndex P prev")
    case None
    with v show ?thesis
      by (auto simp: new nth_append less_Suc_eq)
  next
    case (Some k)
    from findIndex_Some [OF Some] have k: "k < length prev" by simp
    have "prev[k := v] ! i = prev ! i" if "\<not> P (prev[k := v] ! i)" for i
    proof -
      from k v that have "k \<noteq> i" by auto
      then show ?thesis by (rule nth_list_update_neq)
    qed
    with Some show ?thesis
      by (simp add: new)
  qed
qed


text \<open>Both \<open>setBikes\<close> updaters replace or add an entry that carries the event's bike id.\<close>

lemma updateBikes_shape:
  "updateBikes js base r prev data =
     (case findIndex (\<lambda>bike. bikeId bike = u_bikeId data) prev of
        Some i \<Rightarrow> prev[i := updatedBike js base r data]
      | None \<Rightarrow> prev @ [updatedBike js base r data])"
  by (simp add: updateBikes_def)

lemma mapUpdateBikes_shape:
  "\<exists>v. bikeId v = u_bikeId data \<and>
     mapUpdateBikes js prev data =
       (case findIndex (\<lambda>bike. bikeId bike = u_bikeId data) prev of
          Some i \<Rightarrow> prev[i := v]
        | None \<Rightarrow> prev @ [v])"
proof (cases "findIndex (\<lambda>bike. bikeId bike = u_bikeId data) prev")
  case None
  then show ?thesis
    by (simp add: mapUpdateBikes_def)
next
  case (Some k)
  let ?v = "(prev ! k)
               \<lparr> currentLocation := d_location (u_data data),
                 avgSpeed := parseFloat js (d_avgSpeed (u_data data)),
                 batteryLevel := parseFloat js (d_battery (u_data data)),
                 lastSeen := u_timestamp data \<rparr>"
  from findIndex_Some [OF Some] have "bikeId (prev ! k) = u_bikeId data" by simp
  then have "bikeId ?v = u_bikeId data"
    by simp
  moreover have "mapUpdateBikes js prev data = prev[k := ?v]"
    using Some by (simp add: mapUpdateBikes_def)
  ultimately show ?thesis
    using Some by (intro exI [of _ ?v]) simp
qed

lemma routes_onMapBikeUpdate_other:
  "k \<noteq> u_bikeId data \<Longrightarrow> routes (onMapBikeUpdate js data s) k = routes s k"
  by (simp add: onMapBikeUpdate_def updateRoutes_def Let_def split: option.splits)

text \<open>
Claim C10. A telemetry event for bike \<open>X\<close> leaves the stored entries of all other bikes
  unchanged, in the geo-fencing component and in the tracking map: the list never gets
  shorter, every entry whose id is not \<open>X\<close> stays at its index with all its fields (location,
  speed, battery, last-seen time, fence classification), and every entry of the new list
  whose id is not \<open>X\<close> is such an old entry. The recorded routes of other bikes are unchanged
  too.
\<close>

theorem telemetry_leaves_other_bikes_unchanged:
  "length (bikes s) \<le> length (bikes (onBikeUpdate js clk data s)) \<and>
   (\<forall>i<length (bikes s). bikeId (bikes s ! i) \<noteq> u_bikeId data \<longrightarrow>
      bikes (onBikeUpdate js clk data s) ! i = bikes s ! i) \<and>
   (\<forall>i<length (bikes (onBikeUpdate js clk data s)).
      bikeId (bikes (onBikeUpdate js clk data s) ! i) \<noteq> u_bikeId data \<longrightarrow>
      i < length (bikes s) \<and> bikes (onBikeUpdate js clk data s) ! i = bikes s ! i) \<and>
   length (mapBikes m) \<le> length (mapBikes (onMapBikeUpdate js data m)) \<and>
   (\<forall>i<length (mapBikes m). bikeId (mapBikes m ! i) \<noteq> u_bikeId data \<longrightarrow>
      mapBikes (onMapBikeUpdate js data m) ! i = mapBikes m ! i) \<and>
   (\<forall>i<length (mapBikes (onMapBikeUpdate js data m)).
      bikeId (mapBikes (onMapBikeUpdate js data m) ! i) \<noteq> u_bikeId data \<longrightarrow>
      i < length (mapBikes m) \<and> mapBikes (onMapBikeUpdate js data m) ! i = mapBikes m ! i) \<and>
   (\<forall>k. k \<noteq> u_bikeId data \<longrightarrow> routes (onMapBikeUpdate js data m) k = routes m k)"
proof -
  let ?P = "\<lambda>bike :: Bike. bikeId bike = u_bikeId data"
  let ?Q = "\<lambda>bike :: MapBike. bikeId bike = u_bikeId data"
  have g: "bikes (onBikeUpdate js clk data s) =
      (case findIndex ?P (bikes s) of
         Some i \<Rightarrow> (bikes s)[i := updatedBike js (baseLocation s) (radius s) data]
       | None \<Rightarrow> bikes s @ [updatedBike js (baseLocation s) (radius s) data])"
    by (simp add: updateBikes_shape)
  have gv: "?P (updatedBike js (baseLocation s) (radius s) data)"
    by simp
  obtain v :: MapBike where v: "?Q v" and
    m: "mapBikes (onMapBikeUpdate js data m) =
      (case findIndex ?Q (mapBikes m) of Some i \<Rightarrow> (mapBikes m)[i := v] | None \<Rightarrow> mapBikes m @ [v])"
    using mapUpdateBikes_shape [of data js "mapBikes m"]
    by (auto simp: onMapBikeUpdate_def)
  note G = frame_update_or_append [where P = ?P, OF g gv]
  note M = frame_update_or_append [where P = ?Q, OF m v]
  show ?thesis
    using G M routes_onMapBikeUpdate_other [of _ data js m]
    by (intro conjI) blast+
qed


theorem telemetry_leaves_other_bikes_unchanged_witness:
  "bikes (onBikeUpdate example_js example_clock (example_update ''bike-1'' example_far)
            (GeoFencing_init \<lparr> bikes := [example_bike ''bike-1'' example_center False 0,
                                        example_bike ''bike-2'' example_center False 0] \<rparr>)) ! 1
     = example_bike ''bike-2'' example_center False 0 \<and>
   mapBikes (onMapBikeUpdate example_js (example_update ''bike-1'' example_far)
            (BikeTrackingMap_init \<lparr> mapBikes := [example_mapBike ''bike-1'' example_center,
                                                example_mapBike ''bike-2'' example_center] \<rparr>)) ! 1
     = example_mapBike ''bike-2'' example_center"
proof -
  let ?s = "GeoFencing_init \<lparr> bikes := [example_bike ''bike-1'' example_center False 0,
                                        example_bike ''bike-2'' example_center False 0] \<rparr>"
  let ?m = "BikeTrackingMap_init \<lparr> mapBikes := [example_mapBike ''bike-1'' example_center,
                                                example_mapBike ''bike-2'' example_center] \<rparr>"
  let ?d = "example_update ''bike-1'' example_far"
  note inst = telemetry_leaves_other_bikes_unchanged [where s = ?s and m = ?m and data = ?d
      and js = example_js and clk = example_clock]
  have s1: "1 < length (bikes ?s)" "bikeId (bikes ?s ! 1) \<noteq> u_bikeId ?d"
    "bikes ?s ! 1 = example_bike ''bike-2'' example_center False 0"
    by (simp_all add: example_bike_def example_update_def)
  have m1: "1 < length (mapBikes ?m)" "bikeId (mapBikes ?m ! 1) \<noteq> u_bikeId ?d"
    "mapBikes ?m ! 1 = example_mapBike ''bike-2'' example_center"
    by (simp_all add: example_mapBike_def example_update_def)
  from inst s1(1,2) have "bikes (onBikeUpdate example_js example_clock ?d ?s) ! 1 = bikes ?s ! 1"
    by blast
  then have G: "bikes (onBikeUpdate example_js example_clock ?d ?s) ! 1
                  = example_bike ''bike-2'' example_center False 0"
    unfolding s1(3) .
  from inst m1(1,2) have "mapBikes (onMapBikeUpdate example_js ?d ?m) ! 1 = mapBikes ?m ! 1"
    by blast
  then have M: "mapBikes (onMapBikeUpdate example_js ?d ?m) ! 1
                  = example_mapBike ''bike-2'' example_center"
    unfolding m1(3) .
  from G M show ?thesis
    by (rule conjI)
qed

section \<open>Telemetry with out-of-range coordinates\<close>

lemma find_mapUpdateBikes_same:
  "\<exists>b. find (\<lambda>bike. bikeId bike = u_bikeId data) (mapUpdateBikes js prev data) = Some b \<and>
       currentLocation b = d_location (u_data data) \<and>
       avgSpeed b = parseFloat js (d_avgSpeed (u_data data)) \<and>
       batteryLevel b = parseFloat js (d_battery (u_data data)) \<and>
       lastSeen b = u_timestamp data"
proof (cases "findIndex (\<lambda>bike. bikeId bike = u_bikeId data) prev")
  case None
  then have "find (\<lambda>bike. bikeId bike = u_bikeId data) prev = None"
    by (simp add: findIndex_None_iff)
  with None show ?thesis
    by (simp add: mapUpdateBikes_def find_append_new)
next
  case (Some k)
  let ?v = "(prev ! k)
               \<lparr> currentLocation := d_location (u_data data),
                 avgSpeed := parseFloat js (d_avgSpeed (u_data data)),
                 batteryLevel := parseFloat js (d_battery (u_data data)),
                 lastSeen := u_timestamp data \<rparr>"
  from findIndex_Some [OF Some] have "bikeId ?v = u_bikeId data" by simp
  from find_update_at_index [OF Some, of ?v] this
  have "find (\<lambda>bike. bikeId bike = u_bikeId data) (prev[k := ?v]) = Some ?v"
    by simp
  with Some show ?thesis
    by (simp add: mapUpdateBikes_def)
qed

text \<open>
Claim C5, as amended. The source validates no coordinate range and has no error result:
  a telemetry event whose latitude is outside \<open>[-90, 90]\<close> or whose longitude is outside
  \<open>[-180, 180]\<close> is applied like any other event. The bike's entry is created or overwritten
  with the reported location, speed, battery level and time stamp, in the tracking map and in
  the geo-fencing component, and the metrics component appends the location to its history
  and stores the event as the latest data.
\<close>

theorem out_of_range_telemetry_is_applied:
  "(d_location (u_data data) = Some loc \<and> \<not> validCoordinates loc \<longrightarrow>
      (\<exists>b. find (\<lambda>bike. bikeId bike = u_bikeId data) (mapBikes (onMapBikeUpdate js data m)) = Some b \<and>
           currentLocation b = Some loc \<and>
           avgSpeed b = parseFloat js (d_avgSpeed (u_data data)) \<and>
           batteryLevel b = parseFloat js (d_battery (u_data data)) \<and>
           lastSeen b = u_timestamp data) \<and>
      (\<exists>b. find (\<lambda>bike. bikeId bike = u_bikeId data) (bikes (onBikeUpdate js clk data s)) = Some b \<and>
           currentLocation b = Some loc \<and>
           avgSpeed b = parseFloat js (d_avgSpeed (u_data data)) \<and>
           batteryLevel b = parseFloat js (d_battery (u_data data)) \<and>
           lastSeen b = u_timestamp data)) \<and>
   (acceptedLocation received = Some loc \<and> \<not> validCoordinates loc \<longrightarrow>
      locationHistory (onBikeData received ms) \<noteq> [] \<and>
      lat (last (locationHistory (onBikeData received ms))) = lat loc \<and>
      lng (last (locationHistory (onBikeData received ms))) = lng loc \<and>
      latestData (onBikeData received ms) = received)"
proof (intro conjI impI)
  assume a: "d_location (u_data data) = Some loc \<and> \<not> validCoordinates loc"
  show "\<exists>b. find (\<lambda>bike. bikeId bike = u_bikeId data) (mapBikes (onMapBikeUpdate js data m)) = Some b \<and>
           currentLocation b = Some loc \<and>
           avgSpeed b = parseFloat js (d_avgSpeed (u_data data)) \<and>
           batteryLevel b = parseFloat js (d_battery (u_data data)) \<and>
           lastSeen b = u_timestamp data"
    using find_mapUpdateBikes_same [of data js "mapBikes m"] a
    by (simp add: onMapBikeUpdate_def)
  let ?b = "updatedBike js (baseLocation s) (radius s) data"
  have "find (\<lambda>bike. bikeId bike = u_bikeId data) (bikes (onBikeUpdate js clk data s)) = Some ?b"
    by (simp add: find_updateBikes_same)
  moreover have "currentLocation ?b = Some loc"
    "avgSpeed ?b = parseFloat js (d_avgSpeed (u_data data))"
    "batteryLevel ?b = parseFloat js (d_battery (u_data data))"
    "lastSeen ?b = u_timestamp data"
    using a by (simp_all add: updatedBike_def updatedBike0_def Let_def)
  ultimately show "\<exists>b. find (\<lambda>bike. bikeId bike = u_bikeId data) (bikes (onBikeUpdate js clk data s)) = Some b \<and>
           currentLocation b = Some loc \<and>
           avgSpeed b = parseFloat js (d_avgSpeed (u_data data)) \<and>
           batteryLevel b = parseFloat js (d_battery (u_data data)) \<and>
           lastSeen b = u_timestamp data"
    by blast
next
  assume a: "acceptedLocation received = Some loc \<and> \<not> validCoordinates loc"
  then have acc: "acceptedLocation received = Some loc" by simp
  from onBikeData_accepted_last [OF acc, of ms]
  show "locationHistory (onBikeData received ms) \<noteq> []"
    and "lat (last (locationHistory (onBikeData received ms))) = lat loc"
    and "lng (last (locationHistory (onBikeData received ms))) = lng loc"
    by simp_all
  from acc show "latestData (onBikeData received ms) = received"
    by (auto simp: acceptedLocation_def onBikeData_def Let_def split: option.splits)
qed

theorem out_of_range_telemetry_is_applied_witness:
  "\<not> validCoordinates example_invalid \<and>
   (\<exists>b. find (\<lambda>bike. bikeId bike = ''bike-1'')
          (mapBikes (onMapBikeUpdate example_js (example_update ''bike-1'' example_invalid)
                       BikeTrackingMap_init)) = Some b \<and>
        currentLocation b = Some example_invalid) \<and>
   (\<exists>b. find (\<lambda>bike. bikeId bike = ''bike-1'')
          (bikes (onBikeUpdate example_js example_clock (example_update ''bike-1'' example_invalid)
                    GeoFencing_init)) = Some b \<and>
        currentLocation b = Some example_invalid) \<and>
   lat (last (locationHistory (onBikeData (example_bikeData example_invalid) EcommerceMetrics_init))) = 91"
proof -
  have inv: "\<not> validCoordinates example_invalid"
    by (simp add: validCoordinates_def example_invalid_def)
  have l: "d_location (u_data (example_update ''bike-1'' example_invalid)) = Some example_invalid"
    "u_bikeId (example_update ''bike-1'' example_invalid) = ''bike-1''"
    by (simp_all add: example_update_def)
  note inst = out_of_range_telemetry_is_applied [where data = "example_update ''bike-1'' example_invalid"
      and loc = example_invalid and js = example_js and clk = example_clock
      and m = BikeTrackingMap_init and s = GeoFencing_init
      and received = "example_bikeData example_invalid" and ms = EcommerceMetrics_init]
  have "lat example_invalid = 91"
    by (simp add: example_invalid_def)
  with inst inv l acceptedLocation_example [of example_invalid] show ?thesis
    by (simp only: simp_thms) blast
qed

text \<open>
  The claim as first stated fails: an event at latitude 91 and longitude 200 changes the bike
  list of the tracking map, the bike list of the geo-fencing component and the location
  history of the metrics component.
\<close>

theorem out_of_range_telemetry_counterexample:
  "\<not> validCoordinates example_invalid \<and>
   mapBikes (onMapBikeUpdate example_js (example_update ''bike-1'' example_invalid) BikeTrackingMap_init)
     \<noteq> mapBikes BikeTrackingMap_init \<and>
   bikes (onBikeUpdate example_js example_clock (example_update ''bike-1'' example_invalid) GeoFencing_init)
     \<noteq> bikes GeoFencing_init \<and>
   locationHistory (onBikeData (example_bikeData example_invalid) EcommerceMetrics_init)
     \<noteq> locationHistory EcommerceMetrics_init"
proof (intro conjI)
  show "\<not> validCoordinates example_invalid"
    by (simp add: validCoordinates_def example_invalid_def)
  show "mapBikes (onMapBikeUpdate example_js (example_update ''bike-1'' example_invalid) BikeTrackingMap_init)
     \<noteq> mapBikes BikeTrackingMap_init"
    by (simp add: onMapBikeUpdate_def mapUpdateBikes_def BikeTrackingMap_init_def)
  show "bikes (onBikeUpdate example_js example_clock (example_update ''bike-1'' example_invalid) GeoFencing_init)
     \<noteq> bikes GeoFencing_init"
    by (simp add: updateBikes_def GeoFencing_init_def)
  have "locationHistory EcommerceMetrics_init = []"
    by (simp add: EcommerceMetrics_init_def)
  then show "locationHistory (onBikeData (example_bikeData example_invalid) EcommerceMetrics_init)
     \<noteq> locationHistory EcommerceMetrics_init"
    by (simp add: example_first_report)
qed

section \<open>BikeTrackingMap: recording route points\<close>

lemma updateRoutes_nonempty:
  assumes "prevRoutes bid = Some route" "route \<noteq> []"
  shows "updateRoutes prevRoutes bid loc =
     (if last route \<noteq> (lat loc, lng loc)
      then prevRoutes(bid \<mapsto> route @ [(lat loc, lng loc)]) else prevRoutes)"
  using assms by (auto simp: updateRoutes_def Let_def prod_eq_iff)

text \<open>
Claim C6, as amended. While route tracking is enabled, for a bike with a non-empty recorded
  route and a report with a location, the point is appended to that bike's route if and only
  if it differs from the last recorded point in latitude or in longitude; a report at exactly
  the last recorded point leaves all routes unchanged. The filter removes exact duplicates;
  no distance is computed and there is no one-metre threshold.
\<close>

theorem route_point_recorded_iff_different:
  "isTrackingRoutes m \<and> routes m (u_bikeId data) = Some route \<and> route \<noteq> [] \<and>
   d_location (u_data data) = Some loc \<longrightarrow>
     routes (onMapBikeUpdate js data m) =
       (if last route \<noteq> (lat loc, lng loc)
        then (routes m)(u_bikeId data \<mapsto> route @ [(lat loc, lng loc)])
        else routes m)"
  by (simp add: onMapBikeUpdate_def updateRoutes_nonempty)

theorem route_point_recorded_iff_different_witness:
  "routes (onMapBikeUpdate example_js (example_update ''bike-1'' example_near)
             (BikeTrackingMap_init
                \<lparr> routes := [''bike-1'' \<mapsto> [(lat example_far, lng example_far)]],
                  isTrackingRoutes := True \<rparr>)) ''bike-1''
     = Some [(lat example_far, lng example_far), (lat example_near, lng example_near)] \<and>
   routes (onMapBikeUpdate example_js (example_update ''bike-1'' example_far)
             (BikeTrackingMap_init
                \<lparr> routes := [''bike-1'' \<mapsto> [(lat example_far, lng example_far)]],
                  isTrackingRoutes := True \<rparr>)) ''bike-1''
     = Some [(lat example_far, lng example_far)]"
proof -
  let ?m = "BikeTrackingMap_init
                \<lparr> routes := [''bike-1'' \<mapsto> [(lat example_far, lng example_far)]],
                  isTrackingRoutes := True \<rparr>"
  have pre: "isTrackingRoutes ?m \<and>
      routes ?m (u_bikeId (example_update ''bike-1'' loc)) = Some [(lat example_far, lng example_far)] \<and>
      [(lat example_far, lng example_far)] \<noteq> [] \<and>
      d_location (u_data (example_update ''bike-1'' loc)) = Some loc" for loc
    by (simp add: example_update_def)
  have differ: "(lat example_far, lng example_far) \<noteq> (lat example_near, lng example_near)"
    by (simp add: example_far_def example_near_def)
  have id: "u_bikeId (example_update ''bike-1'' loc) = ''bike-1''" for loc
    by (simp add: example_update_def)
  from route_point_recorded_iff_different [where m = ?m and js = example_js
      and data = "example_update ''bike-1'' example_near" and loc = example_near
      and route = "[(lat example_far, lng example_far)]"] pre [of example_near]
  have "routes (onMapBikeUpdate example_js (example_update ''bike-1'' example_near) ?m) =
       (if last [(lat example_far, lng example_far)] \<noteq> (lat example_near, lng example_near)
        then (routes ?m)(u_bikeId (example_update ''bike-1'' example_near) \<mapsto>
               [(lat example_far, lng example_far)] @ [(lat example_near, lng example_near)])
        else routes ?m)"
    by (rule mp)
  with differ have A: "routes (onMapBikeUpdate example_js (example_update ''bike-1'' example_near) ?m) ''bike-1''
      = Some [(lat example_far, lng example_far), (lat example_near, lng example_near)]"
    by (simp add: id)
  from route_point_recorded_iff_different [where m = ?m and js = example_js
      and data = "example_update ''bike-1'' example_far" and loc = example_far
      and route = "[(lat example_far, lng example_far)]"] pre [of example_far]
  have "routes (onMapBikeUpdate example_js (example_update ''bike-1'' example_far) ?m) =
       (if last [(lat example_far, lng example_far)] \<noteq> (lat example_far, lng example_far)
        then (routes ?m)(u_bikeId (example_update ''bike-1'' example_far) \<mapsto>
               [(lat example_far, lng example_far)] @ [(lat example_far, lng example_far)])
        else routes ?m)"
    by (rule mp)
  then have B: "routes (onMapBikeUpdate example_js (example_update ''bike-1'' example_far) ?m) ''bike-1''
      = Some [(lat example_far, lng example_far)]"
    by simp
  from A B show ?thesis
    by (rule conjI)
qed

text \<open>
  The claim as first stated fails: a report about 0.11 m from the last recorded point, well
  below the one-metre threshold, is appended to the route.
\<close>

theorem route_noise_threshold_counterexample:
  "routes (onMapBikeUpdate example_js (example_update ''bike-1'' example_near)
             (BikeTrackingMap_init
                \<lparr> routes := [''bike-1'' \<mapsto> [(lat example_far, lng example_far)]],
                  isTrackingRoutes := True \<rparr>)) ''bike-1''
     = Some [(lat example_far, lng example_far), (lat example_near, lng example_near)] \<and>
   \<not> calculateDistance (lat example_far) (lng example_far) (lat example_near) (lng example_near) > 0.001"
proof -
  have differ: "lat example_far \<noteq> lat example_near"
    by (simp add: example_far_def example_near_def)
  then have "routes (onMapBikeUpdate example_js (example_update ''bike-1'' example_near)
             (BikeTrackingMap_init
                \<lparr> routes := [''bike-1'' \<mapsto> [(lat example_far, lng example_far)]],
                  isTrackingRoutes := True \<rparr>)) ''bike-1''
     = Some [(lat example_far, lng example_far), (lat example_near, lng example_near)]"
    by (simp add: onMapBikeUpdate_def updateRoutes_def example_update_def Let_def)
  moreover have "\<not> calculateDistance (lat example_far) (lng example_far) (lat example_near) (lng example_near) > 0.001"
    using example_near_distance(1) by (simp only: not_less less_imp_le)
  ultimately show ?thesis
    by (rule conjI)
qed

section \<open>GeoFencing: changing the fence\<close>


lemma changeRadius_fields [simp]:
  "trackingEnabled (changeRadius v response s) = trackingEnabled s"
  "baseLocation (changeRadius v response s) = baseLocation s"
  "radius (changeRadius v response s) = (if 0 < v then v else radius s)"
  by (simp_all add: changeRadius_def handleRadiusChange_def socketEffect_def fetchBikes_def Let_def
      split: option.splits)







section \<open>BikeTrackingMap: toggling route tracking\<close>

lemma initRoute_other: "bikeId b \<noteq> k \<Longrightarrow> initRoute r b k = r k"
  by (simp add: initRoute_def split: option.splits)

lemma find_Some_D: "find P xs = Some x \<Longrightarrow> x \<in> set xs \<and> P x"
  by (induction xs) (auto split: if_splits)

lemma foldl_initRoute_lookup:
  "foldl initRoute r bs k =
     (case find (\<lambda>b. bikeId b = k \<and> currentLocation b \<noteq> None) (rev bs) of
        None \<Rightarrow> r k
      | Some b \<Rightarrow> map_option (\<lambda>loc. [(lat loc, lng loc)]) (currentLocation b))"
proof -
  define P where "P = (\<lambda>b :: MapBike. bikeId b = k \<and> currentLocation b \<noteq> None)"
  have "foldl initRoute r bs k =
     (case find P (rev bs) of
        None \<Rightarrow> r k
      | Some b \<Rightarrow> map_option (\<lambda>loc. [(lat loc, lng loc)]) (currentLocation b))"
  proof (induction bs rule: rev_induct)
    case Nil
    then show ?case by simp
  next
    case (snoc b bs)
    show ?case
    proof (cases "P b")
      case True
      then have "initRoute (foldl initRoute r bs) b k
          = map_option (\<lambda>loc. [(lat loc, lng loc)]) (currentLocation b)"
        by (auto simp: P_def initRoute_def)
      with True show ?thesis
        by simp
    next
      case False
      then have "initRoute (foldl initRoute r bs) b k = foldl initRoute r bs k"
        by (auto simp: P_def initRoute_def split: option.splits)
      with False snoc.IH show ?thesis
        by simp
    qed
  qed
  then show ?thesis
    unfolding P_def .
qed

text \<open>What a click on Stop and a click on Start leave in each field.\<close>

lemma stopRouteTracking_fields:
  "routes (stopRouteTracking response m) = routes m"
  "\<not> isTrackingRoutes (stopRouteTracking response m)"
  "isTrackingRoutes m \<Longrightarrow>
     mapBikes (stopRouteTracking response m) = (case response of None \<Rightarrow> mapBikes m | Some bs \<Rightarrow> bs)"
  by (simp_all add: stopRouteTracking_def stopRouteTrackingBody_def afterFlagChange_def
      mapSocketEffect_def mapFetchBikes_def split: option.splits)

lemma startRouteTracking_fields:
  "routes (startRouteTracking response m) = foldl initRoute Map.empty (mapBikes m)"
  "isTrackingRoutes (startRouteTracking response m)"
  "\<not> isTrackingRoutes m \<Longrightarrow>
     mapBikes (startRouteTracking response m) = (case response of None \<Rightarrow> mapBikes m | Some bs \<Rightarrow> bs)"
  by (simp_all add: startRouteTracking_def startRouteTrackingBody_def afterFlagChange_def
      mapSocketEffect_def mapFetchBikes_def split: option.splits)

lemma startRouteTracking_routes:
  "routes (startRouteTracking response m) k =
     (case find (\<lambda>b. bikeId b = k \<and> currentLocation b \<noteq> None) (rev (mapBikes m)) of
        None \<Rightarrow> None
      | Some b \<Rightarrow> map_option (\<lambda>loc. [(lat loc, lng loc)]) (currentLocation b))"
  by (simp add: startRouteTracking_fields foldl_initRoute_lookup)

text \<open>
  Claim C9, as amended. Toggling route tracking off clears the tracking flag and leaves the
  recorded routes in the state; while tracking is off no telemetry event changes a route.
  Toggling it on discards all recorded routes and gives a route to exactly the bikes that are
  known at the click and have a current location; each such route is a single point at the
  current location of a bike with that id, and the result does not depend on the routes
  recorded before. Either toggle makes the socket effect run again, which requests the bike
  list: when the server answers, the stored bike list is replaced by the answer, otherwise it
  stays as it was.
\<close>

theorem tracking_toggle_routes:
  "(isTrackingRoutes m \<longrightarrow>
      routes (toggleRouteTracking response m) = routes m \<and>
      \<not> isTrackingRoutes (toggleRouteTracking response m) \<and>
      mapBikes (toggleRouteTracking response m)
        = (case response of None \<Rightarrow> mapBikes m | Some bs \<Rightarrow> bs) \<and>
      routes (onMapBikeUpdate js data (toggleRouteTracking response m)) = routes m) \<and>
   (\<not> isTrackingRoutes m \<longrightarrow>
      isTrackingRoutes (toggleRouteTracking response m) \<and>
      (\<forall>k. routes (toggleRouteTracking response m) k \<noteq> None \<longleftrightarrow>
            (\<exists>b \<in> set (mapBikes m). bikeId b = k \<and> currentLocation b \<noteq> None)) \<and>
      (\<forall>k route. routes (toggleRouteTracking response m) k = Some route \<longrightarrow>
            (\<exists>b \<in> set (mapBikes m). \<exists>loc. bikeId b = k \<and> currentLocation b = Some loc \<and>
                route = [(lat loc, lng loc)])) \<and>
      routes (toggleRouteTracking response m)
        = routes (toggleRouteTracking response (m \<lparr> routes := r \<rparr>)) \<and>
      mapBikes (toggleRouteTracking response m)
        = (case response of None \<Rightarrow> mapBikes m | Some bs \<Rightarrow> bs))"
proof (intro conjI impI allI)
  assume on: "isTrackingRoutes m"
  then have t: "toggleRouteTracking response m = stopRouteTracking response m"
    by (simp add: toggleRouteTracking_def)
  show "routes (toggleRouteTracking response m) = routes m"
    and "\<not> isTrackingRoutes (toggleRouteTracking response m)"
    by (simp_all add: t stopRouteTracking_fields)
  show "mapBikes (toggleRouteTracking response m)
        = (case response of None \<Rightarrow> mapBikes m | Some bs \<Rightarrow> bs)"
    using on by (simp add: t stopRouteTracking_fields)
  show "routes (onMapBikeUpdate js data (toggleRouteTracking response m)) = routes m"
    by (simp add: t onMapBikeUpdate_def stopRouteTracking_fields)
next
  assume off: "\<not> isTrackingRoutes m"
  then have t: "toggleRouteTracking response m = startRouteTracking response m"
    by (simp add: toggleRouteTracking_def)
  show "isTrackingRoutes (toggleRouteTracking response m)"
    by (simp add: t startRouteTracking_fields)
  show "routes (toggleRouteTracking response m)
        = routes (toggleRouteTracking response (m \<lparr> routes := r \<rparr>))"
    using off by (simp add: toggleRouteTracking_def startRouteTracking_fields)
  show "mapBikes (toggleRouteTracking response m)
        = (case response of None \<Rightarrow> mapBikes m | Some bs \<Rightarrow> bs)"
    using off by (simp add: t startRouteTracking_fields)
  {
    fix k
    let ?P = "\<lambda>b :: MapBike. bikeId b = k \<and> currentLocation b \<noteq> None"
    show "routes (toggleRouteTracking response m) k \<noteq> None \<longleftrightarrow>
            (\<exists>b \<in> set (mapBikes m). bikeId b = k \<and> currentLocation b \<noteq> None)"
    proof (cases "find ?P (rev (mapBikes m))")
      case None
      then have "\<not> (\<exists>b \<in> set (mapBikes m). ?P b)"
        by (simp add: find_None_iff)
      with None show ?thesis
        unfolding t startRouteTracking_routes by simp
    next
      case (Some b)
      from find_Some_D [OF Some] have "b \<in> set (mapBikes m)" "?P b"
        by simp_all
      then have "\<exists>b \<in> set (mapBikes m). ?P b" "currentLocation b \<noteq> None"
        by blast+
      with Some show ?thesis
        unfolding t startRouteTracking_routes by auto
    qed
  next
    fix k route
    let ?P = "\<lambda>b :: MapBike. bikeId b = k \<and> currentLocation b \<noteq> None"
    assume "routes (toggleRouteTracking response m) k = Some route"
    then obtain b where b: "find ?P (rev (mapBikes m)) = Some b"
      and r: "map_option (\<lambda>loc. [(lat loc, lng loc)]) (currentLocation b) = Some route"
      unfolding t startRouteTracking_routes by (auto split: option.splits)
    from find_Some_D [OF b] have "b \<in> set (mapBikes m)" "bikeId b = k"
      by simp_all
    with r show "\<exists>b \<in> set (mapBikes m). \<exists>loc. bikeId b = k \<and> currentLocation b = Some loc \<and>
                route = [(lat loc, lng loc)]"
      by auto
  }
qed

theorem tracking_toggle_routes_witness:
  "routes (toggleRouteTracking (Some [example_mapBike ''bike-2'' example_far])
             (BikeTrackingMap_init
                \<lparr> mapBikes := [example_mapBike ''bike-1'' example_center],
                  routes := [''bike-1'' \<mapsto> [(lat example_far, lng example_far),
                                               (lat example_near, lng example_near)]],
                  isTrackingRoutes := True \<rparr>)) ''bike-1''
     = Some [(lat example_far, lng example_far), (lat example_near, lng example_near)] \<and>
   mapBikes (toggleRouteTracking (Some [example_mapBike ''bike-2'' example_far])
             (BikeTrackingMap_init
                \<lparr> mapBikes := [example_mapBike ''bike-1'' example_center],
                  routes := [''bike-1'' \<mapsto> [(lat example_far, lng example_far),
                                               (lat example_near, lng example_near)]],
                  isTrackingRoutes := True \<rparr>))
     = [example_mapBike ''bike-2'' example_far] \<and>
   routes (toggleRouteTracking (Some [example_mapBike ''bike-2'' example_far])
             (BikeTrackingMap_init
                \<lparr> mapBikes := [example_mapBike ''bike-1'' example_center],
                  routes := [''bike-1'' \<mapsto> [(lat example_far, lng example_far),
                                               (lat example_near, lng example_near)]] \<rparr>)) ''bike-1''
     = Some [(lat example_center, lng example_center)] \<and>
   mapBikes (toggleRouteTracking (Some [example_mapBike ''bike-2'' example_far])
             (BikeTrackingMap_init
                \<lparr> mapBikes := [example_mapBike ''bike-1'' example_center],
                  routes := [''bike-1'' \<mapsto> [(lat example_far, lng example_far),
                                               (lat example_near, lng example_near)]] \<rparr>))
     = [example_mapBike ''bike-2'' example_far]"
proof -
  let ?r = "[''bike-1'' \<mapsto> [(lat example_far, lng example_far), (lat example_near, lng example_near)]]"
  let ?resp = "Some [example_mapBike ''bike-2'' example_far]"
  let ?on = "BikeTrackingMap_init
                \<lparr> mapBikes := [example_mapBike ''bike-1'' example_center],
                  routes := ?r, isTrackingRoutes := True \<rparr>"
  let ?off = "BikeTrackingMap_init
                \<lparr> mapBikes := [example_mapBike ''bike-1'' example_center], routes := ?r \<rparr>"
  have on: "isTrackingRoutes ?on" and off: "\<not> isTrackingRoutes ?off"
    by (simp_all add: BikeTrackingMap_init_def)
  note stop = tracking_toggle_routes [where m = ?on and response = ?resp]
  note start = tracking_toggle_routes [where m = ?off and response = ?resp]
  from stop on have "routes (toggleRouteTracking ?resp ?on) = routes ?on"
    by blast
  then have A: "routes (toggleRouteTracking ?resp ?on) ''bike-1''
      = Some [(lat example_far, lng example_far), (lat example_near, lng example_near)]"
    by simp
  from stop on have "mapBikes (toggleRouteTracking ?resp ?on)
      = (case ?resp of None \<Rightarrow> mapBikes ?on | Some bs \<Rightarrow> bs)"
    by blast
  then have B: "mapBikes (toggleRouteTracking ?resp ?on) = [example_mapBike ''bike-2'' example_far]"
    by simp
  have known: "example_mapBike ''bike-1'' example_center \<in> set (mapBikes ?off)"
    "bikeId (example_mapBike ''bike-1'' example_center) = ''bike-1''"
    "currentLocation (example_mapBike ''bike-1'' example_center) \<noteq> None"
    by (simp_all add: example_mapBike_def)
  from start off
  have iff: "routes (toggleRouteTracking ?resp ?off) ''bike-1'' \<noteq> None \<longleftrightarrow>
            (\<exists>b \<in> set (mapBikes ?off). bikeId b = ''bike-1'' \<and> currentLocation b \<noteq> None)"
    and single: "\<forall>route. routes (toggleRouteTracking ?resp ?off) ''bike-1'' = Some route \<longrightarrow>
            (\<exists>b \<in> set (mapBikes ?off). \<exists>loc. bikeId b = ''bike-1'' \<and> currentLocation b = Some loc \<and>
                route = [(lat loc, lng loc)])"
    and bikes: "mapBikes (toggleRouteTracking ?resp ?off)
      = (case ?resp of None \<Rightarrow> mapBikes ?off | Some bs \<Rightarrow> bs)"
    by blast+
  from iff known obtain route where route: "routes (toggleRouteTracking ?resp ?off) ''bike-1'' = Some route"
    by blast
  with single obtain b loc where "b \<in> set (mapBikes ?off)" "currentLocation b = Some loc"
    "route = [(lat loc, lng loc)]"
    by blast
  then have "route = [(lat example_center, lng example_center)]"
    by (auto simp: example_mapBike_def)
  with route have C: "routes (toggleRouteTracking ?resp ?off) ''bike-1''
      = Some [(lat example_center, lng example_center)]"
    by simp
  from bikes have D: "mapBikes (toggleRouteTracking ?resp ?off) = [example_mapBike ''bike-2'' example_far]"
    by simp
  from A B C D show ?thesis
    by (intro conjI)
qed

text \<open>
  The claim as first stated fails: toggling tracking off while a route of two points is
  recorded leaves that route in the state, whether or not the server answers the request
  for the bike list.
\<close>

theorem tracking_off_keeps_routes_counterexample:
  "isTrackingRoutes
     (BikeTrackingMap_init
        \<lparr> mapBikes := [example_mapBike ''bike-1'' example_center],
          routes := [''bike-1'' \<mapsto> [(lat example_far, lng example_far),
                                       (lat example_near, lng example_near)]],
          isTrackingRoutes := True \<rparr>) \<and>
   routes (toggleRouteTracking (Some [example_mapBike ''bike-1'' example_center])
             (BikeTrackingMap_init
                \<lparr> mapBikes := [example_mapBike ''bike-1'' example_center],
                  routes := [''bike-1'' \<mapsto> [(lat example_far, lng example_far),
                                               (lat example_near, lng example_near)]],
                  isTrackingRoutes := True \<rparr>)) ''bike-1''
     = Some [(lat example_far, lng example_far), (lat example_near, lng example_near)] \<and>
   routes (toggleRouteTracking None
             (BikeTrackingMap_init
                \<lparr> mapBikes := [example_mapBike ''bike-1'' example_center],
                  routes := [''bike-1'' \<mapsto> [(lat example_far, lng example_far),
                                               (lat example_near, lng example_near)]],
                  isTrackingRoutes := True \<rparr>)) ''bike-1''
     = Some [(lat example_far, lng example_far), (lat example_near, lng example_near)]"
proof -
  let ?on = "BikeTrackingMap_init
        \<lparr> mapBikes := [example_mapBike ''bike-1'' example_center],
          routes := [''bike-1'' \<mapsto> [(lat example_far, lng example_far),
                                       (lat example_near, lng example_near)]],
          isTrackingRoutes := True \<rparr>"
  have 1: "isTrackingRoutes ?on"
    by simp
  have 2: "routes (toggleRouteTracking response ?on) ''bike-1''
     = Some [(lat example_far, lng example_far), (lat example_near, lng example_near)]" for response
    by (simp add: toggleRouteTracking_def stopRouteTracking_fields)
  from 1 2 [of "Some [example_mapBike ''bike-1'' example_center]"] 2 [of None] show ?thesis
    by (intro conjI)
qed

section \<open>GeoFencing: fence evaluation in double precision\<close>

lemma roundEven_eq:
  assumes "\<bar>y - of_int n\<bar> < 1 / 2"
  shows "roundEven y = n"
proof (cases "of_int n \<le> y")
  case True
  with assms have "\<lfloor>y\<rfloor> = n"
    by (intro floor_unique) linarith+
  with assms True show ?thesis
    by (simp add: roundEven_def Let_def)
next
  case False
  then have B: "y < of_int n" by simp
  from assms have A: "of_int n - 1 \<le> y" by linarith
  have f: "\<lfloor>y\<rfloor> = n - 1"
    using A B by (intro floor_unique) simp_all
  have "1 / 2 < y - of_int (n - 1)"
    using assms B by simp
  with f show ?thesis
    by (simp add: roundEven_def Let_def)
qed

lemma fl_eqI:
  fixes k :: nat
  assumes lo: "2 ^ 52 \<le> \<bar>x\<bar> * 2 ^ k" and hi: "\<bar>x\<bar> * 2 ^ k < 2 ^ 53"
    and n: "\<bar>x * 2 ^ k - of_int n\<bar> < 1 / 2" and y: "y = of_int n / 2 ^ k"
  shows "fl x = y"
proof -
  from lo have x0: "x \<noteq> 0" by auto
  then have pos: "0 < \<bar>x\<bar>" by simp
  have l: "log 2 (\<bar>x\<bar> * 2 ^ k) = log 2 \<bar>x\<bar> + real k"
    using pos by (simp add: log_mult log_nat_power)
  have l52: "log 2 ((2::real) ^ 52) = 52" and l53: "log 2 ((2::real) ^ 53) = 53"
    by (subst log_nat_power; simp)+
  have "log 2 (2 ^ 52) \<le> log 2 (\<bar>x\<bar> * 2 ^ k)"
    using lo pos by (subst log_le_cancel_iff) simp_all
  then have "52 \<le> log 2 \<bar>x\<bar> + real k"
    by (simp only: l l52)
  then have a: "52 - real k \<le> log 2 \<bar>x\<bar>"
    by simp
  have "log 2 (\<bar>x\<bar> * 2 ^ k) < log 2 (2 ^ 53)"
    using hi pos by (subst log_less_cancel_iff) simp_all
  then have "log 2 \<bar>x\<bar> + real k < 53"
    by (simp only: l l53)
  then have b: "log 2 \<bar>x\<bar> < 53 - real k"
    by simp
  have "\<lfloor>log 2 \<bar>x\<bar>\<rfloor> = 52 - int k"
    using a b by (intro floor_unique) simp_all
  then have e: "\<lfloor>log 2 \<bar>x\<bar>\<rfloor> - 52 = - int k"
    by simp
  have p: "(2::real) powr - real k = 1 / 2 ^ k"
    by (simp add: powr_minus powr_realpow divide_inverse)
  have "fl x = of_int (roundEven (x * 2 ^ k)) / 2 ^ k"
    using x0 by (simp add: fl_def Let_def e p)
  also have "roundEven (x * 2 ^ k) = n"
    using n by (rule roundEven_eq)
  finally show ?thesis
    by (simp add: y)
qed

text \<open>
  The sine and cosine at the arguments of the example, enclosed by their Maclaurin polynomials,
  and the doubles nearest to them.
\<close>

lemma fact_vals:
  "fact 2 = (2::real)" "fact 3 = (6::real)" "fact 4 = (24::real)" "fact 5 = (120::real)"
  "fact 6 = (720::real)" "fact 7 = (5040::real)" "fact 8 = (40320::real)"
  "fact 9 = (362880::real)" "fact 10 = (3628800::real)"
  by (simp_all add: fact_numeral)

lemma sum_unroll10: "(\<Sum>m<10. f m) = f 0 + f 1 + f 2 + f 3 + f 4 + f 5 + f 6 + f 7 + f 8 + f 9"
  for f :: "nat \<Rightarrow> real"
  by (simp add: eval_nat_numeral)

lemma sin_sum10:
  "(\<Sum>m<10. sin_coeff m * x ^ m) = x - x ^ 3 / 6 + x ^ 5 / 120 - x ^ 7 / 5040 + x ^ 9 / 362880"
  for x :: real
  by (simp add: sum_unroll10 sin_coeff_def fact_vals)

lemma cos_sum10:
  "(\<Sum>m<10. cos_coeff m * x ^ m) = 1 - x ^ 2 / 2 + x ^ 4 / 24 - x ^ 6 / 720 + x ^ 8 / 40320"
  for x :: real
  by (simp add: sum_unroll10 cos_coeff_def fact_vals)

lemma sin_taylor10:
  "\<bar>sin x - (x - x ^ 3 / 6 + x ^ 5 / 120 - x ^ 7 / 5040 + x ^ 9 / 362880)\<bar> \<le> \<bar>x\<bar> ^ 10 / 3628800"
  for x :: real
proof -
  have "\<bar>sin x - (\<Sum>m<10. sin_coeff m * x ^ m)\<bar> \<le> inverse (fact 10) * \<bar>x\<bar> ^ 10"
    by (rule Maclaurin_sin_bound)
  then show ?thesis
    by (simp only: sin_sum10 fact_vals divide_inverse mult.commute)
qed

lemma cos_taylor10:
  "\<bar>cos x - (1 - x ^ 2 / 2 + x ^ 4 / 24 - x ^ 6 / 720 + x ^ 8 / 40320)\<bar> \<le> \<bar>x\<bar> ^ 10 / 3628800"
  for x :: real
proof -
  note f = fact_vals(9)
  obtain t where "cos x = (\<Sum>m<10. cos_coeff m * x ^ m) + (cos (t + 1 / 2 * real 10 * pi) / fact 10) * x ^ 10"
    using Maclaurin_cos_expansion [of x 10] by blast
  then have "cos x - (1 - x ^ 2 / 2 + x ^ 4 / 24 - x ^ 6 / 720 + x ^ 8 / 40320)
      = cos (t + 1 / 2 * real 10 * pi) * (x ^ 10 / 3628800)"
    by (simp add: cos_sum10 f)
  also have "\<bar>\<dots>\<bar> \<le> 1 * \<bar>x ^ 10 / 3628800\<bar>"
    unfolding abs_mult by (rule mult_right_mono) simp_all
  finally show ?thesis
    by (simp add: power_abs)
qed


lemma sin_lower10:
  "x - x ^ 3 / 6 + x ^ 5 / 120 - x ^ 7 / 5040 + x ^ 9 / 362880 - \<bar>x\<bar> ^ 10 / 3628800 \<le> sin x"
  for x :: real
  using sin_taylor10 [of x] by linarith

lemma sin_upper10:
  "sin x \<le> x - x ^ 3 / 6 + x ^ 5 / 120 - x ^ 7 / 5040 + x ^ 9 / 362880 + \<bar>x\<bar> ^ 10 / 3628800"
  for x :: real
  using sin_taylor10 [of x] by linarith

lemma cos_lower10:
  "1 - x ^ 2 / 2 + x ^ 4 / 24 - x ^ 6 / 720 + x ^ 8 / 40320 - \<bar>x\<bar> ^ 10 / 3628800 \<le> cos x"
  for x :: real
  using cos_taylor10 [of x] by linarith

lemma cos_upper10:
  "cos x \<le> 1 - x ^ 2 / 2 + x ^ 4 / 24 - x ^ 6 / 720 + x ^ 8 / 40320 + \<bar>x\<bar> ^ 10 / 3628800"
  for x :: real
  using cos_taylor10 [of x] by linarith

lemma sin_h1_lower:
  "- (804635675380353101 / 2 ^ 64) \<le> sin (- (6288211335136391 / 2 ^ 57) :: real)"
  by (rule order_trans [OF _ sin_lower10]) (simp add: power_divide)

lemma sin_h1_upper:
  "sin (- (6288211335136391 / 2 ^ 57) :: real) \<le> - (6437085403042824805 / 2 ^ 67)"
  by (rule order_trans [OF sin_upper10]) (simp add: power_divide)

lemma fl_sin_h1: "fl (sin (- (6288211335136391 / 2 ^ 57))) = - (6286216213909009 / 2 ^ 57)"
  using sin_h1_lower sin_h1_upper
  by (intro fl_eqI [where k = 57 and n = "- 6286216213909009"]) simp_all

lemma cos_r1_lower:
  "4607296715203800411 / 2 ^ 62 \<le> cos (6288211335136391 / 2 ^ 57 :: real)"
  by (rule order_trans [OF _ cos_lower10]) (simp add: power_divide)

lemma cos_r1_upper:
  "cos (6288211335136391 / 2 ^ 57 :: real) \<le> 9214593430407600823 / 2 ^ 63"
  by (rule order_trans [OF cos_upper10]) (simp add: power_divide)

lemma fl_cos_r1: "fl (cos (6288211335136391 / 2 ^ 57)) = 8998626396882423 / 2 ^ 53"
  using cos_r1_lower cos_r1_upper
  by (intro fl_eqI [where k = 53 and n = "8998626396882423"]) simp_all

lemma fact_vals26:
  "fact 2 = (2::real)" "fact 3 = (6::real)" "fact 4 = (24::real)" "fact 5 = (120::real)" "fact 6 = (720::real)" "fact 7 = (5040::real)" "fact 8 = (40320::real)" "fact 9 = (362880::real)" "fact 10 = (3628800::real)" "fact 11 = (39916800::real)" "fact 12 = (479001600::real)" "fact 13 = (6227020800::real)" "fact 14 = (87178291200::real)" "fact 15 = (1307674368000::real)" "fact 16 = (20922789888000::real)" "fact 17 = (355687428096000::real)" "fact 18 = (6402373705728000::real)" "fact 19 = (121645100408832000::real)" "fact 20 = (2432902008176640000::real)" "fact 21 = (51090942171709440000::real)" "fact 22 = (1124000727777607680000::real)" "fact 23 = (25852016738884976640000::real)" "fact 24 = (620448401733239439360000::real)" "fact 25 = (15511210043330985984000000::real)" "fact 26 = (403291461126605635584000000::real)"
  by (simp_all add: fact_numeral)

lemma sum_unroll26: "(\<Sum>m<26. f m) = f 0 + f 1 + f 2 + f 3 + f 4 + f 5 + f 6 + f 7 + f 8 + f 9 + f 10 + f 11 + f 12 + f 13 + f 14 + f 15 + f 16 + f 17 + f 18 + f 19 + f 20 + f 21 + f 22 + f 23 + f 24 + f 25"
  for f :: "nat \<Rightarrow> real"
  by (simp add: eval_nat_numeral)

lemma sin_sum26:
  "(\<Sum>m<26. sin_coeff m * x ^ m) = x - x ^ 3 / 6 + x ^ 5 / 120 - x ^ 7 / 5040 + x ^ 9 / 362880 - x ^ 11 / 39916800 + x ^ 13 / 6227020800 - x ^ 15 / 1307674368000 + x ^ 17 / 355687428096000 - x ^ 19 / 121645100408832000 + x ^ 21 / 51090942171709440000 - x ^ 23 / 25852016738884976640000 + x ^ 25 / 15511210043330985984000000"
  for x :: real
  by (simp add: sum_unroll26 sin_coeff_def fact_vals26)

lemma sin_lower26:
  "x - x ^ 3 / 6 + x ^ 5 / 120 - x ^ 7 / 5040 + x ^ 9 / 362880 - x ^ 11 / 39916800 + x ^ 13 / 6227020800 - x ^ 15 / 1307674368000 + x ^ 17 / 355687428096000 - x ^ 19 / 121645100408832000 + x ^ 21 / 51090942171709440000 - x ^ 23 / 25852016738884976640000 + x ^ 25 / 15511210043330985984000000 - \<bar>x\<bar> ^ 26 / 403291461126605635584000000 \<le> sin x"
  for x :: real
proof -
  have "\<bar>sin x - (\<Sum>m<26. sin_coeff m * x ^ m)\<bar> \<le> inverse (fact 26) * \<bar>x\<bar> ^ 26"
    by (rule Maclaurin_sin_bound)
  then have "\<bar>sin x - (x - x ^ 3 / 6 + x ^ 5 / 120 - x ^ 7 / 5040 + x ^ 9 / 362880 - x ^ 11 / 39916800 + x ^ 13 / 6227020800 - x ^ 15 / 1307674368000 + x ^ 17 / 355687428096000 - x ^ 19 / 121645100408832000 + x ^ 21 / 51090942171709440000 - x ^ 23 / 25852016738884976640000 + x ^ 25 / 15511210043330985984000000)\<bar> \<le> \<bar>x\<bar> ^ 26 / 403291461126605635584000000"
    by (simp only: sin_sum26 fact_vals26 divide_inverse mult.commute)
  then show ?thesis
    by linarith
qed

lemma sin_h2_lower:
  "9223372036854775807 / 2 ^ 63 \<le> sin (884279719003555 / 2 ^ 49 :: real)"
  by (rule order_trans [OF _ sin_lower26]) (simp add: power_divide)

lemma fl_one: "fl 1 = 1"
  by (rule fl_eqI [where k = 52 and n = "4503599627370496"]) simp_all

lemma fl_near_one:
  assumes "1 - 1 / 2 ^ 54 < x" and "x \<le> 1"
  shows "fl x = 1"
proof (cases "x = 1")
  case True
  then show ?thesis
    by (simp add: fl_one)
next
  case False
  with assms show ?thesis
    by (intro fl_eqI [where k = 53 and n = "9007199254740992"]) simp_all
qed

lemma fl_sin_h2: "fl (sin (884279719003555 / 2 ^ 49)) = 1"
proof (rule fl_near_one)
  have "(1::real) - 1 / 2 ^ 54 < 9223372036854775807 / 2 ^ 63"
    by simp
  also note sin_h2_lower
  finally show "1 - 1 / 2 ^ 54 < sin (884279719003555 / 2 ^ 49 :: real)" .
qed simp

lemma ex64_t1: "fl ((- (5 / 2)) - (5 / 2)) = (- 5)"
  by (rule fl_eqI [where k = 50 and n = "- 5629499534213120"]) (simp_all add: Math_PI_def)

lemma ex64_t2: "fl ((- 5) * Math_PI) = (- (4421398595017775 / 2 ^ 48))"
  by (rule fl_eqI [where k = 49 and n = "- 8842797190035550"]) (simp_all add: Math_PI_def)

lemma ex64_dLat: "fl ((- (4421398595017775 / 2 ^ 48)) / 180) = (- (6288211335136391 / 2 ^ 56))"
  by (rule fl_eqI [where k = 56 and n = "- 6288211335136391"]) (simp_all add: Math_PI_def)

lemma ex64_h1: "fl ((- (6288211335136391 / 2 ^ 56)) / 2) = (- (6288211335136391 / 2 ^ 57))"
  by (rule fl_eqI [where k = 57 and n = "- 6288211335136391"]) (simp_all add: Math_PI_def)

lemma ex64_u1: "fl (180 - 0) = 180"
  by (rule fl_eqI [where k = 45 and n = "6333186975989760"]) (simp_all add: Math_PI_def)

lemma ex64_u2: "fl (180 * Math_PI) = (4974073419394997 / 2 ^ 43)"
  by (rule fl_eqI [where k = 43 and n = "4974073419394997"]) (simp_all add: Math_PI_def)

lemma ex64_dLng: "fl ((4974073419394997 / 2 ^ 43) / 180) = (884279719003555 / 2 ^ 48)"
  by (rule fl_eqI [where k = 51 and n = "7074237752028440"]) (simp_all add: Math_PI_def)

lemma ex64_h2: "fl ((884279719003555 / 2 ^ 48) / 2) = (884279719003555 / 2 ^ 49)"
  by (rule fl_eqI [where k = 52 and n = "7074237752028440"]) (simp_all add: Math_PI_def)

lemma ex64_v1: "fl ((5 / 2) * Math_PI) = (4421398595017775 / 2 ^ 49)"
  by (rule fl_eqI [where k = 50 and n = "8842797190035550"]) (simp_all add: Math_PI_def)

lemma ex64_r1: "fl ((4421398595017775 / 2 ^ 49) / 180) = (6288211335136391 / 2 ^ 57)"
  by (rule fl_eqI [where k = 57 and n = "6288211335136391"]) (simp_all add: Math_PI_def)

lemma ex64_w1: "fl ((- (5 / 2)) * Math_PI) = (- (4421398595017775 / 2 ^ 49))"
  by (rule fl_eqI [where k = 50 and n = "- 8842797190035550"]) (simp_all add: Math_PI_def)

lemma ex64_r2: "fl ((- (4421398595017775 / 2 ^ 49)) / 180) = (- (6288211335136391 / 2 ^ 57))"
  by (rule fl_eqI [where k = 57 and n = "- 6288211335136391"]) (simp_all add: Math_PI_def)

lemma ex64_s1: "Math_sin example_Math (- (6288211335136391 / 2 ^ 57)) = (- (6286216213909009 / 2 ^ 57))"
  by (simp only: example_Math_def Math.select_convs fl_sin_h1)

lemma ex64_s2: "Math_sin example_Math (884279719003555 / 2 ^ 49) = 1"
  by (simp only: example_Math_def Math.select_convs fl_sin_h2)

lemma ex64_c1: "Math_cos example_Math (6288211335136391 / 2 ^ 57) = (8998626396882423 / 2 ^ 53)"
  by (simp only: example_Math_def Math.select_convs fl_cos_r1)

lemma ex64_c2: "Math_cos example_Math (- (6288211335136391 / 2 ^ 57)) = (8998626396882423 / 2 ^ 53)"
  by (simp only: example_Math_def Math.select_convs cos_minus fl_cos_r1)

lemma ex64_p1: "fl ((- (6286216213909009 / 2 ^ 57)) * (- (6286216213909009 / 2 ^ 57))) = (4387214401548047 / 2 ^ 61)"
  by (rule fl_eqI [where k = 62 and n = "8774428803096094"]) (simp_all add: Math_PI_def)

lemma ex64_q1: "fl ((8998626396882423 / 2 ^ 53) * (8998626396882423 / 2 ^ 53)) = (4495030849242473 / 2 ^ 52)"
  by (rule fl_eqI [where k = 53 and n = "8990061698484946"]) (simp_all add: Math_PI_def)

lemma ex64_q2: "fl ((4495030849242473 / 2 ^ 52) * 1) = (4495030849242473 / 2 ^ 52)"
  by (rule fl_eqI [where k = 53 and n = "8990061698484946"]) (simp_all add: Math_PI_def)

lemma ex64_q3: "fl ((4495030849242473 / 2 ^ 52) * 1) = (4495030849242473 / 2 ^ 52)"
  by (rule fl_eqI [where k = 53 and n = "8990061698484946"]) (simp_all add: Math_PI_def)

lemma ex64_a: "fl ((4387214401548047 / 2 ^ 61) + (4495030849242473 / 2 ^ 52)) = (4503599627370497 / 2 ^ 52)"
  by (rule fl_eqI [where k = 52 and n = "4503599627370497"]) (simp_all add: Math_PI_def)

lemma ex64_b: "fl (1 - (4503599627370497 / 2 ^ 52)) = (- (1 / 2 ^ 52))"
  by (rule fl_eqI [where k = 104 and n = "- 4503599627370496"]) (simp_all add: Math_PI_def)

lemmas ex64 = ex64_t1 ex64_t2 ex64_dLat ex64_h1 ex64_u1 ex64_u2 ex64_dLng ex64_h2 ex64_v1 ex64_r1 ex64_w1 ex64_r2 ex64_s1 ex64_s2 ex64_c1 ex64_c2 ex64_p1 ex64_q1 ex64_q2 ex64_q3 ex64_a ex64_b

lemma example_a64:
  "haversine_a64 example_Math (5 / 2) 0 (- (5 / 2)) 180 = (4503599627370497 / 2 ^ 52)"
  unfolding haversine_a64_def Let_def
  by (simp only: ex64)


lemma roundEven_neg: "y \<le> - 1 \<Longrightarrow> roundEven y < 0"
proof -
  assume y: "y \<le> - 1"
  then have f: "\<lfloor>y\<rfloor> \<le> - 1"
    by (simp add: floor_le_iff)
  show ?thesis
  proof (cases "y - of_int \<lfloor>y\<rfloor> < 1 / 2")
    case True
    with f show ?thesis
      by (simp add: roundEven_def Let_def)
  next
    case False
    with y have "of_int \<lfloor>y\<rfloor> \<le> y - 1 / 2" "y - 1 / 2 < - 1"
      by simp_all
    then have "of_int \<lfloor>y\<rfloor> < (- 1 :: real)"
      by linarith
    then have "\<lfloor>y\<rfloor> < - 1"
      by linarith
    with False show ?thesis
      by (simp add: roundEven_def Let_def)
  qed
qed

lemma fl_neg:
  assumes "x < 0"
  shows "fl x < 0"
proof -
  define e where "e = \<lfloor>log 2 \<bar>x\<bar>\<rfloor> - 52"
  define u :: real where "u = 2 powr of_int e"
  have u: "0 < u"
    by (simp add: u_def)
  from assms have pos: "0 < \<bar>x\<bar>" by simp
  have "of_int e + 52 \<le> log 2 \<bar>x\<bar>"
    by (simp add: e_def)
  then have "2 powr (of_int e + 52) \<le> 2 powr log 2 \<bar>x\<bar>"
    by (subst powr_le_cancel_iff) simp_all
  then have "u * 2 powr 52 \<le> \<bar>x\<bar>"
    using pos by (simp add: u_def powr_add)
  moreover have "(1::real) \<le> 2 powr 52"
    by (simp add: ge_one_powr_ge_zero)
  ultimately have "u * 1 \<le> \<bar>x\<bar>"
    using u by (meson mult_left_mono less_imp_le order_trans)
  then have "x / u \<le> - 1"
    using assms u by (simp add: field_simps)
  then have "roundEven (x / u) < 0"
    by (rule roundEven_neg)
  then have "of_int (roundEven (x / u)) * u < 0"
    using u by (simp add: mult_less_0_iff)
  with assms show ?thesis
    by (simp add: fl_def Let_def e_def u_def)
qed

text \<open>Whenever the computed \<open>a\<close> exceeds 1, the distance is NaN and the bike counts as inside.\<close>

lemma calculateDistance64_overshoot:
  assumes "1 < haversine_a64 M lat1 lng1 lat2 lng2"
  shows "calculateDistance64 M lat1 lng1 lat2 lng2 = None"
proof -
  from assms have "fl (1 - haversine_a64 M lat1 lng1 lat2 lng2) < 0"
    by (intro fl_neg) simp
  then have "Math_sqrt (fl (1 - haversine_a64 M lat1 lng1 lat2 lng2)) = None"
    by (simp add: Math_sqrt_def)
  then show ?thesis
    by (simp add: calculateDistance64_def Let_def split: option.splits)
qed

lemma distanceKm_antipode: "distanceKm example_antipode example_base64 = 6371 * pi"
proof -
  define y :: real where "y = 5 / 2 * pi / 180"
  have 1: "(lat example_base64 - lat example_antipode) * pi / 180 / 2 = y"
    by (simp add: example_base64_def example_antipode_def y_def)
  have 2: "lat example_antipode * pi / 180 = - y" "lat example_base64 * pi / 180 = y"
    by (simp_all add: example_base64_def example_antipode_def y_def)
  have 3: "(lng example_base64 - lng example_antipode) * pi / 180 / 2 = - (pi / 2)"
    by (simp add: example_base64_def example_antipode_def)
  have "(sin y)\<^sup>2 + cos (- y) * cos y * (sin (- (pi / 2)))\<^sup>2 = 1"
    by (simp add: power2_eq_square [symmetric])
  then show ?thesis
    unfolding distanceKm_def Let_def 1 2 3 by simp
qed

text \<open>
  Claim C2 asks that the fence evaluation compute the haversine distance (Earth radius
  6371 km) between the bike and the fence centre for every state and configuration, and
  classify the bike as outside exactly when that distance is strictly greater than the
  radius. The source compares with \<open>distance > radius\<close>, but it does not clamp \<open>a\<close>: for
  the fence centre \<open>(2.5, 0)\<close> and the bike position \<open>(-2.5, 180)\<close>, both valid, and
  built-ins that round correctly, the computed \<open>a\<close> is \<open>1 + 1 / 2 ^ 52\<close>, the double
  after 1. The square root of \<open>1 - a\<close> is NaN, the distance is NaN and the bike is
  classified as inside a fence of radius 1 km, while the haversine distance between the two
  points is \<open>6371 \<pi>\<close> km.
\<close>

theorem fence_evaluation_nan_near_antipode:
  "validCoordinates example_base64 \<and> validCoordinates example_antipode \<and>
   haversine_a64 example_Math (lat example_base64) (lng example_base64)
       (lat example_antipode) (lng example_antipode) = 1 + 1 / 2 ^ 52 \<and>
   calculateDistance64 example_Math (lat example_base64) (lng example_base64)
       (lat example_antipode) (lng example_antipode) = None \<and>
   \<not> isOutsideFence64 example_Math example_base64 1 example_antipode \<and>
   distanceKm example_antipode example_base64 = 6371 * pi \<and>
   1 < distanceKm example_antipode example_base64"
proof -
  have ll: "lat example_base64 = 5 / 2" "lng example_base64 = 0"
    "lat example_antipode = - (5 / 2)" "lng example_antipode = 180"
    by (simp_all add: example_base64_def example_antipode_def)
  have v: "validCoordinates example_base64" "validCoordinates example_antipode"
    by (simp_all add: validCoordinates_def example_base64_def example_antipode_def)
  have a: "haversine_a64 example_Math (lat example_base64) (lng example_base64)
       (lat example_antipode) (lng example_antipode) = 1 + 1 / 2 ^ 52"
    unfolding ll example_a64 by simp
  then have "1 < haversine_a64 example_Math (lat example_base64) (lng example_base64)
       (lat example_antipode) (lng example_antipode)"
    by simp
  then have n: "calculateDistance64 example_Math (lat example_base64) (lng example_base64)
       (lat example_antipode) (lng example_antipode) = None"
    by (rule calculateDistance64_overshoot)
  then have o: "\<not> isOutsideFence64 example_Math example_base64 1 example_antipode"
    by (simp add: isOutsideFence64_def)
  have "(1::real) < 6371 * 2"
    by simp
  also have "\<dots> \<le> 6371 * pi"
    using pi_ge_two by simp
  finally have far: "1 < distanceKm example_antipode example_base64"
    by (simp only: distanceKm_antipode)
  from v a n o distanceKm_antipode far show ?thesis
    by (intro conjI)
qed

end
